theory Spec2Isabelle
  imports Complex_Main "HOL-Library.Product_Lexorder" "HOL-Library.Char_ord"
    "HOL-Library.List_Lexorder" "HOL-Library.Log_Nat"
begin

section \<open>The job table (models/jobs.py)\<close>

text \<open>
  Status values are the strings the module stores in the \<open>status\<close> column. A Python
  float is the real number it denotes: \<open>priority_score\<close> is only compared, the
  selection score of the load balancer is computed on reals, and the token statistics are
  computed in double precision (section on floating point below). JSON payloads are
  association lists of keys and values.
\<close>

definition JOB_STATUS_QUEUED :: string where
  "JOB_STATUS_QUEUED = ''queued''"

definition JOB_STATUS_RUNNING :: string where
  "JOB_STATUS_RUNNING = ''running''"

definition JOB_STATUS_COMPLETED :: string where
  "JOB_STATUS_COMPLETED = ''completed''"

definition JOB_STATUS_FAILED :: string where
  "JOB_STATUS_FAILED = ''failed''"

definition JOB_STATUS_CANCELLED :: string where
  "JOB_STATUS_CANCELLED = ''cancelled''"

definition TERMINAL_STATUSES :: "string set" where
  "TERMINAL_STATUSES = {JOB_STATUS_COMPLETED, JOB_STATUS_FAILED, JOB_STATUS_CANCELLED}"

datatype jval =
    JNull
  | JBool bool
  | JInt int
  | JNum real
  | JStr string
  | JList "jval list"
  | JObj "(string \<times> jval) list"

type_synonym json_dict = "(string \<times> jval) list"

text \<open>The columns of class \<open>Job\<close>; the primary key \<open>id\<close> is the field \<open>job_id\<close>.\<close>

record job =
  job_id :: string
  user_id :: string
  status :: string
  priority :: int
  priority_score :: real
  model_id :: "string option"
  backend_url :: "string option"
  request :: "json_dict option"
  result :: "json_dict option"
  error :: "string option"
  attempt_count :: int
  max_attempts :: int
  created_at :: int
  updated_at :: int

text \<open>Class \<open>JobArchive\<close>: the same columns and \<open>archived_at\<close>.\<close>

record job_archive = job +
  archived_at :: int

text \<open>
  The table is the list of its rows. \<open>db.query(Job).filter(Job.id == job_id).first()\<close>
  is \<open>get_row\<close>; the commit of a changed ORM object rewrites the row with that key.
\<close>

definition get_row :: "job list \<Rightarrow> string \<Rightarrow> job option" where
  "get_row db i = find (\<lambda>j. job_id j = i) db"

definition put_row :: "job list \<Rightarrow> job \<Rightarrow> job list" where
  "put_row db j' = map (\<lambda>j. if job_id j = job_id j' then j' else j) db"

text \<open>\<open>JobsTable.insert_new_job\<close>; \<open>now\<close> is \<open>int(time.time())\<close>, \<open>new_id\<close> the fresh uuid.\<close>

definition insert_new_job ::
  "job list \<Rightarrow> string \<Rightarrow> string \<Rightarrow> json_dict \<Rightarrow> int \<Rightarrow> int \<Rightarrow> int \<Rightarrow> string
     \<Rightarrow> job list \<times> job" where
  "insert_new_job db uid mid request_payload prio max_att now new_id =
     (let j = \<lparr> job_id = new_id, user_id = uid, status = JOB_STATUS_QUEUED,
                 priority = prio, priority_score = real_of_int prio,
                 model_id = Some mid, backend_url = None,
                 request = Some request_payload, result = None, error = None,
                 attempt_count = 0, max_attempts = max_att,
                 created_at = now, updated_at = now \<rparr>
      in (db @ [j], j))"

definition get_job_by_id :: "job list \<Rightarrow> string \<Rightarrow> job option" where
  "get_job_by_id db i = get_row db i"

text \<open>\<open>if backend_url:\<close> is false for \<open>None\<close> and for the empty string.\<close>

definition update_job_running ::
  "job list \<Rightarrow> string \<Rightarrow> string option \<Rightarrow> int \<Rightarrow> job list \<times> job option" where
  "update_job_running db i burl now =
     (case get_row db i of
        None \<Rightarrow> (db, None)
      | Some j \<Rightarrow>
          (let j1 = j\<lparr>status := JOB_STATUS_RUNNING\<rparr>;
               j2 = j1\<lparr>attempt_count := attempt_count j1 + 1\<rparr>;
               j3 = (case burl of
                       None \<Rightarrow> j2
                     | Some u \<Rightarrow> if u = [] then j2 else j2\<lparr>backend_url := Some u\<rparr>);
               j4 = j3\<lparr>updated_at := now\<rparr>
           in (put_row db j4, Some j4)))"

definition update_job_completed ::
  "job list \<Rightarrow> string \<Rightarrow> json_dict \<Rightarrow> int \<Rightarrow> job list \<times> job option" where
  "update_job_completed db i res now =
     (case get_row db i of
        None \<Rightarrow> (db, None)
      | Some j \<Rightarrow>
          (let j' = j\<lparr>status := JOB_STATUS_COMPLETED, result := Some res,
                       error := None, updated_at := now\<rparr>
           in (put_row db j', Some j')))"

definition update_job_failed ::
  "job list \<Rightarrow> string \<Rightarrow> string \<Rightarrow> bool \<Rightarrow> int \<Rightarrow> job list \<times> job option" where
  "update_job_failed db i err requeue now =
     (case get_row db i of
        None \<Rightarrow> (db, None)
      | Some j \<Rightarrow>
          (let j1 = j\<lparr>error := Some err\<rparr>;
               j2 = (if requeue \<and> attempt_count j1 < max_attempts j1
                     then j1\<lparr>status := JOB_STATUS_QUEUED\<rparr>
                     else j1\<lparr>status := JOB_STATUS_FAILED\<rparr>);
               j3 = j2\<lparr>updated_at := now\<rparr>
           in (put_row db j3, Some j3)))"

definition update_job_cancelled ::
  "job list \<Rightarrow> string \<Rightarrow> int \<Rightarrow> job list \<times> job option" where
  "update_job_cancelled db i now =
     (case get_row db i of
        None \<Rightarrow> (db, None)
      | Some j \<Rightarrow>
          if status j \<in> TERMINAL_STATUSES then (db, Some j)
          else (let j' = j\<lparr>status := JOB_STATUS_CANCELLED, updated_at := now\<rparr>
                in (put_row db j', Some j')))"

definition retry_job :: "job list \<Rightarrow> string \<Rightarrow> int \<Rightarrow> job list \<times> job option" where
  "retry_job db i now =
     (case get_row db i of
        None \<Rightarrow> (db, None)
      | Some j \<Rightarrow>
          (let j' = j\<lparr>status := JOB_STATUS_QUEUED, error := None, attempt_count := 0,
                       priority_score := real_of_int (priority j), updated_at := now\<rparr>
           in (put_row db j', Some j')))"


text \<open>
  The test fixture \<open>_make_mock_job\<close> of test_jobs_model.py: a row with priority 5,
  score 5.0 and the given identity, owner, status and counters.
\<close>

definition make_mock_job ::
  "string \<Rightarrow> string \<Rightarrow> string \<Rightarrow> int \<Rightarrow> int \<Rightarrow> real \<Rightarrow> int \<Rightarrow> job" where
  "make_mock_job i uid st att max_att score created =
     \<lparr> job_id = i, user_id = uid, status = st, priority = 5, priority_score = score,
       model_id = Some ''llama3'', backend_url = None,
       request = Some [(''model'', JStr ''llama3'')], result = None, error = None,
       attempt_count = att, max_attempts = max_att,
       created_at = created, updated_at = created \<rparr>"

section \<open>The scheduler's claim (utils/job_scheduler.py)\<close>

text \<open>
  The query of \<open>_claim_next_queued_job\<close>: the rows with \<open>status = queued\<close>,
  \<open>ORDER BY priority_score DESC, created_at ASC\<close>. Rows that tie keep their table order.
\<close>

definition queued_in_claim_order :: "job list \<Rightarrow> job list" where
  "queued_in_claim_order db =
     sort_key (\<lambda>j. (- priority_score j, created_at j))
       (filter (\<lambda>j. status j = JOB_STATUS_QUEUED) db)"

text \<open>
  A claim transaction has two steps. The select is \<open>.first()\<close> of the query. The commit
  follows the three assignments on the object the select returned: \<open>attempt_count\<close> is
  computed in Python from the value that was read, and the \<open>UPDATE\<close> writes the three
  columns to the row with the object's key.
\<close>

definition claim_select :: "job list \<Rightarrow> job option" where
  "claim_select db = (case queued_in_claim_order db of [] \<Rightarrow> None | j # _ \<Rightarrow> Some j)"

definition claim_commit :: "job list \<Rightarrow> job \<Rightarrow> int \<Rightarrow> job list \<times> string option" where
  "claim_commit db job now =
     (let new_status = JOB_STATUS_RUNNING;
          new_count = attempt_count job + 1
      in (map (\<lambda>k. if job_id k = job_id job
                    then k\<lparr>status := new_status, attempt_count := new_count,
                           updated_at := now\<rparr>
                    else k) db,
          Some (job_id job)))"

text \<open>A transaction that runs with no other writer between its two steps.\<close>

definition claim_transaction :: "job list \<Rightarrow> int \<Rightarrow> job list \<times> string option" where
  "claim_transaction db now =
     (case claim_select db of
        None \<Rightarrow> (db, None)
      | Some job \<Rightarrow> claim_commit db job now)"

text \<open>
  \<open>_claim_next_queued_job\<close>, called alone. \<open>fails1\<close>: the first transaction (with
  \<open>FOR UPDATE SKIP LOCKED\<close>, which holds the selected row until the commit) raises and is
  rolled back; \<open>fails2\<close>: so does the plain one of the \<open>except\<close> branch (which takes no
  lock), and the function logs and returns \<open>None\<close>.
\<close>

definition claim_next_queued_job ::
  "job list \<Rightarrow> int \<Rightarrow> bool \<Rightarrow> bool \<Rightarrow> job list \<times> string option" where
  "claim_next_queued_job db now fails1 fails2 =
     (if \<not> fails1 then claim_transaction db now
      else if \<not> fails2 then claim_transaction db now
      else (db, None))"

section \<open>Workers\<close>

text \<open>
  What \<open>await generate_chat_completion(...)\<close> and the decoding of its response give
  a worker: a result dictionary, or an exception with its message.
\<close>

datatype completion = Returned json_dict | Raised string

text \<open>
  \<open>_run_job\<close> of routers/jobs.py, in the two parts the \<open>await\<close> separates: the
  write before the backend call and the write after it. The cache invalidation and the
  server-sent events do not touch the table and are left out.
\<close>

definition run_job_begin :: "job list \<Rightarrow> string \<Rightarrow> int \<Rightarrow> job list" where
  "run_job_begin db i now = fst (update_job_running db i None now)"

definition run_job_end :: "job list \<Rightarrow> string \<Rightarrow> completion \<Rightarrow> int \<Rightarrow> job list" where
  "run_job_end db i outcome now =
     (case outcome of
        Returned res \<Rightarrow> fst (update_job_completed db i res now)
      | Raised msg \<Rightarrow> fst (update_job_failed db i msg True now))"

definition run_job :: "job list \<Rightarrow> string \<Rightarrow> completion \<Rightarrow> int \<Rightarrow> int \<Rightarrow> job list" where
  "run_job db i outcome t1 t2 = run_job_end (run_job_begin db i t1) i outcome t2"

text \<open>
  \<open>_execute_job\<close> of utils/job_scheduler.py, the worker of a claimed job:
  \<open>present\<close> is whether \<open>get_job_by_id\<close> found the job before the backend call.
\<close>

definition execute_job_end ::
  "bool \<Rightarrow> job list \<Rightarrow> string \<Rightarrow> completion \<Rightarrow> int \<Rightarrow> job list" where
  "execute_job_end present db i outcome now =
     (if \<not> present then db
      else (case outcome of
              Returned res \<Rightarrow> fst (update_job_completed db i res now)
            | Raised msg \<Rightarrow> fst (update_job_failed db i msg True now)))"

section \<open>The HTTP handlers (routers/jobs.py)\<close>

datatype http_response = HTTPException nat | JSONResponse nat json_dict

text \<open>
  The caller as the handlers read it: \<open>user.id\<close>, and \<open>job_priority\<close> when the
  attribute exists.
\<close>

record caller =
  uid :: string
  job_priority :: "int option"

text \<open>\<open>JobSubmitForm\<close>.\<close>

record job_submit_form =
  model :: string
  messages :: "jval list"
  temperature :: "real option"
  top_p :: "real option"
  max_tokens :: "int option"
  stream :: bool

text \<open>\<open>form_data.model_dump(exclude_none=True)\<close> followed by \<open>payload["stream"] = False\<close>.\<close>

definition submit_payload :: "job_submit_form \<Rightarrow> json_dict" where
  "submit_payload f =
     [(''model'', JStr (model f)), (''messages'', JList (messages f))]
     @ (case temperature f of None \<Rightarrow> [] | Some t \<Rightarrow> [(''temperature'', JNum t)])
     @ (case top_p f of None \<Rightarrow> [] | Some t \<Rightarrow> [(''top_p'', JNum t)])
     @ (case max_tokens f of None \<Rightarrow> [] | Some n \<Rightarrow> [(''max_tokens'', JInt n)])
     @ [(''stream'', JBool False)]"

text \<open>
  \<open>submit_job\<close>. \<open>MODELS\<close> are the keys of \<open>request.app.state.MODELS\<close>;
  \<open>insert_fails\<close>: the insert raises, which the server answers with status 500. The third
  component is the background task handed to \<open>create_task\<close>: the arguments of
  \<open>_run_job\<close>.
\<close>

definition submit_job ::
  "string set \<Rightarrow> job list \<Rightarrow> job_submit_form \<Rightarrow> caller \<Rightarrow> int \<Rightarrow> string \<Rightarrow> bool
     \<Rightarrow> job list \<times> http_response \<times> (string \<times> json_dict \<times> caller) option" where
  "submit_job MODELS db form_data usr now new_id insert_fails =
     (if model form_data \<notin> MODELS then (db, HTTPException 404, None)
      else if insert_fails then (db, HTTPException 500, None)
      else
        (let payload = submit_payload form_data;
             prio = (case job_priority usr of None \<Rightarrow> 5 | Some p \<Rightarrow> p);
             (db', j) = insert_new_job db (uid usr) (model form_data) payload prio 3 now new_id
         in (db',
             JSONResponse 202
               [(''job_id'', JStr (job_id j)), (''status'', JStr JOB_STATUS_QUEUED),
                (''model_id'', (case model_id j of None \<Rightarrow> JNull | Some m \<Rightarrow> JStr m)),
                (''created_at'', JInt (created_at j))],
             Some (job_id j, payload, usr))))"



text \<open>A submission and its caller, for the examples.\<close>

definition example_form :: job_submit_form where
  "example_form =
     \<lparr> model = ''llama3'',
       messages = [JObj [(''role'', JStr ''user''), (''content'', JStr ''Hi'')]],
       temperature = None, top_p = None, max_tokens = None, stream = False \<rparr>"

definition example_caller :: caller where
  "example_caller = \<lparr> uid = ''u1'', job_priority = Some 5 \<rparr>"

section \<open>Polling a job through the cache (routers/jobs.py)\<close>

text \<open>
  The Redis keyspace as the code reads it, one map per kind of key: \<open>job:<id>\<close> holds a
  JSON object, \<open>active_jobs:<origin>\<close> an integer, \<open>perf_avg_...:<origin>\<close> a float,
  \<open>health_status:<origin>\<close> an object of which only \<open>status\<close> is read.
  \<open>request.app.state.redis\<close> is a \<open>redis_store option\<close>; expiry of a key (the
  \<open>ex=\<close> argument) is a removal by the environment and is not modelled. Every helper
  takes \<open>raises\<close>: the Redis call fails and the helper's \<open>except\<close> branch runs.
\<close>

record redis_store =
  job_cache :: "string \<rightharpoonup> json_dict"
  counters :: "string \<rightharpoonup> int"
  floats :: "string \<rightharpoonup> real"
  health :: "string \<rightharpoonup> string"

definition get_cached_job :: "redis_store option \<Rightarrow> bool \<Rightarrow> string \<Rightarrow> json_dict option" where
  "get_cached_job redis raises i =
     (case redis of
        None \<Rightarrow> None
      | Some r \<Rightarrow> if raises then None else job_cache r (''job:'' @ i))"

definition cache_job ::
  "redis_store option \<Rightarrow> bool \<Rightarrow> string \<Rightarrow> json_dict \<Rightarrow> redis_store option" where
  "cache_job redis raises i job_data =
     (case redis of
        None \<Rightarrow> None
      | Some r \<Rightarrow>
          if raises then Some r
          else Some (r\<lparr>job_cache := (job_cache r)(''job:'' @ i \<mapsto> job_data)\<rparr>))"

definition opt_str :: "string option \<Rightarrow> jval" where
  "opt_str x = (case x of None \<Rightarrow> JNull | Some s \<Rightarrow> JStr s)"

definition opt_dict :: "json_dict option \<Rightarrow> jval" where
  "opt_dict x = (case x of None \<Rightarrow> JNull | Some d \<Rightarrow> JObj d)"

text \<open>\<open>_to_response\<close>: the dump of a \<open>JobResponse\<close>, which has no \<open>user_id\<close> field.\<close>

definition to_response :: "job \<Rightarrow> json_dict" where
  "to_response j =
     [(''job_id'', JStr (job_id j)),
      (''status'', JStr (status j)),
      (''model_id'', opt_str (model_id j)),
      (''backend_url'', opt_str (backend_url j)),
      (''attempt_count'', JInt (attempt_count j)),
      (''max_attempts'', JInt (max_attempts j)),
      (''created_at'', JInt (created_at j)),
      (''updated_at'', JInt (updated_at j)),
      (''result'', opt_dict (result j)),
      (''error'', opt_str (error j))]"

text \<open>\<open>d[k] = v\<close> on a dictionary.\<close>

fun dict_set :: "string \<Rightarrow> jval \<Rightarrow> json_dict \<Rightarrow> json_dict" where
  "dict_set k v [] = [(k, v)]"
| "dict_set k v ((k', v') # d) =
     (if k' = k then (k, v) # d else (k', v') # dict_set k v d)"

text \<open>
  \<open>get_job\<close>: the response and the cache afterwards. \<open>None\<close> and the empty dictionary
  are both false in \<open>if cached and include_result\<close>, so a miss is read as the empty
  dictionary; \<open>cached.get("user_id")\<close> is \<open>map_of\<close>.
\<close>

definition get_job ::
  "redis_store option \<Rightarrow> bool \<Rightarrow> job list \<Rightarrow> string \<Rightarrow> bool \<Rightarrow> caller
     \<Rightarrow> http_response \<times> redis_store option" where
  "get_job redis raises db i include_result usr =
     (let cached = (case get_cached_job redis raises i of None \<Rightarrow> [] | Some c \<Rightarrow> c) in
      if cached \<noteq> [] \<and> include_result then
        (if map_of cached ''user_id'' \<noteq> Some (JStr (uid usr)) then (HTTPException 403, redis)
         else (JSONResponse 200 cached, redis))
      else
        (case get_job_by_id db i of
           None \<Rightarrow> (HTTPException 404, redis)
         | Some j \<Rightarrow>
             if user_id j \<noteq> uid usr then (HTTPException 403, redis)
             else
               (let response_data = to_response j;
                    response_data = (if \<not> include_result
                                     then dict_set ''result'' JNull response_data
                                     else response_data);
                    redis' = (if status j \<in> TERMINAL_STATUSES \<and> include_result
                              then cache_job redis raises i response_data
                              else redis)
                in (JSONResponse 200 response_data, redis'))))"

definition empty_redis :: redis_store where
  "empty_redis = \<lparr> job_cache = Map.empty, counters = Map.empty, floats = Map.empty,
                    health = Map.empty \<rparr>"

text \<open>A completed job of the example caller, with its result.\<close>

definition example_done :: job where
  "example_done =
     (make_mock_job ''j1'' ''u1'' JOB_STATUS_COMPLETED 1 3 5 100)
       \<lparr>result := Some [(''done'', JBool True)]\<rparr>"

section \<open>The archive sweep (models/jobs.py)\<close>

text \<open>
  Where an exception is raised inside the \<open>try\<close> of \<open>archive_old_jobs\<close>: nowhere;
  before the assignment \<open>archived = len(old_jobs)\<close> (opening the session, the query, an
  \<open>add\<close> or a \<open>delete\<close>); or in \<open>db.commit()\<close>, after it. A transaction that did not
  commit leaves both tables as they were.
\<close>

datatype archive_fault = No_Fault | Raises_Before_Count | Raises_In_Commit

definition to_archive_row :: "int \<Rightarrow> job \<Rightarrow> job_archive" where
  "to_archive_row now j =
     \<lparr> job_id = job_id j, user_id = user_id j, status = status j, priority = priority j,
       priority_score = priority_score j, model_id = model_id j,
       backend_url = backend_url j, request = request j, result = result j,
       error = error j, attempt_count = attempt_count j, max_attempts = max_attempts j,
       created_at = created_at j, updated_at = updated_at j, archived_at = now \<rparr>"

text \<open>\<open>t_cutoff\<close> and \<open>t_now\<close> are the two readings of \<open>int(time.time())\<close>.\<close>

definition archive_old_jobs ::
  "job list \<Rightarrow> job_archive list \<Rightarrow> int \<Rightarrow> int \<Rightarrow> int \<Rightarrow> archive_fault
     \<Rightarrow> (job list \<times> job_archive list) \<times> int" where
  "archive_old_jobs db arch older_than_days t_cutoff t_now fault =
     (let cutoff = t_cutoff - older_than_days * 86400;
          old_jobs = filter (\<lambda>j. status j \<in> TERMINAL_STATUSES \<and> updated_at j < cutoff) db
      in case fault of
           Raises_Before_Count \<Rightarrow> ((db, arch), 0)
         | Raises_In_Commit \<Rightarrow> ((db, arch), int (length old_jobs))
         | No_Fault \<Rightarrow>
             ((filter (\<lambda>j. job_id j \<notin> job_id ` set old_jobs) db,
               arch @ map (to_archive_row t_now) old_jobs),
              int (length old_jobs)))"


section \<open>Daily buckets of the combined analytics (models/jobs.py)\<close>

text \<open>
  The calendar functions of the two engines are library code. Both use the proleptic
  Gregorian calendar: \<open>civil_from_days\<close> is the date of a day number counted from
  1970-01-01, \<open>isoformat\<close> prints it as \<open>YYYY-MM-DD\<close> (years 0 to 9999).
\<close>

definition civil_from_days :: "int \<Rightarrow> int \<times> int \<times> int" where
  "civil_from_days n =
     (let z = n + 719468;
          era = z div 146097;
          doe = z - era * 146097;
          yoe = (doe - doe div 1460 + doe div 36524 - doe div 146096) div 365;
          doy = doe - (365 * yoe + yoe div 4 - yoe div 100);
          mp = (5 * doy + 2) div 153;
          d = doy - (153 * mp + 2) div 5 + 1;
          m = (if mp < 10 then mp + 3 else mp - 9);
          y = yoe + era * 400 + (if m \<le> 2 then 1 else 0)
      in (y, m, d))"

definition digit :: "int \<Rightarrow> char" where
  "digit n = ''0123456789'' ! nat (n mod 10)"

definition isoformat :: "int \<times> int \<times> int \<Rightarrow> string" where
  "isoformat ymd =
     (case ymd of (y, m, d) \<Rightarrow>
        [digit (y div 1000), digit (y div 100), digit (y div 10), digit y]
        @ ''-'' @ [digit (m div 10), digit m]
        @ ''-'' @ [digit (d div 10), digit d])"

text \<open>
  SQLite: \<open>strftime('%Y-%m-%d', datetime(created_at, 'unixepoch'))\<close>, the UTC date of
  the instant.
\<close>

definition sqlite_day_bucket :: "int \<Rightarrow> string" where
  "sqlite_day_bucket created = isoformat (civil_from_days (created div 86400))"

text \<open>
  The other engines: \<open>created_at / day_secs\<close> is read as the source's comment has it,
  the integer quotient, which rounds toward zero; the label is \<open>date.fromtimestamp(int(day_bucket) * day_secs).isoformat()\<close>.
  \<open>date.fromtimestamp\<close> gives the date in the server's local time zone: \<open>utcoffset\<close> is
  that zone's offset from UTC in seconds.
\<close>

definition sql_int_div :: "int \<Rightarrow> int \<Rightarrow> int" where
  "sql_int_div a b = (if 0 \<le> a then a div b else - ((- a) div b))"

definition other_day_bucket :: "int \<Rightarrow> int" where
  "other_day_bucket created = sql_int_div created 86400"

definition date_fromtimestamp :: "int \<Rightarrow> int \<Rightarrow> int \<times> int \<times> int" where
  "date_fromtimestamp utcoffset t = civil_from_days ((t + utcoffset) div 86400)"

definition other_day_label :: "int \<Rightarrow> int \<Rightarrow> string" where
  "other_day_label utcoffset bucket = isoformat (date_fromtimestamp utcoffset (bucket * 86400))"

record daily_row =
  date :: string
  total :: nat
  completed :: nat
  failed :: nat

text \<open>The \<open>union_all\<close> of both tables, as (status, created_at).\<close>

definition combined :: "job list \<Rightarrow> job_archive list \<Rightarrow> (string \<times> int) list" where
  "combined db arch =
     map (\<lambda>j. (status j, created_at j)) db @ map (\<lambda>j. (status j, created_at j)) arch"

text \<open>
  \<open>GROUP BY bucket ORDER BY bucket\<close> over the rows of the last 90 days, with the three
  counts; \<open>label\<close> turns a bucket into the row's \<open>date\<close>.
\<close>

definition daily_rows ::
  "(int \<Rightarrow> 'k::linorder) \<Rightarrow> ('k \<Rightarrow> string) \<Rightarrow> int \<Rightarrow> (string \<times> int) list \<Rightarrow> daily_row list" where
  "daily_rows bucket label now rows =
     (let cutoff_90d = now - 90 * 86400;
          recent = filter (\<lambda>r. snd r \<ge> cutoff_90d) rows;
          buckets = sort (remdups (map (\<lambda>r. bucket (snd r)) recent))
      in map (\<lambda>b.
            (let g = filter (\<lambda>r. bucket (snd r) = b) recent
             in \<lparr> date = label b,
                  total = length g,
                  completed = length (filter (\<lambda>r. fst r = JOB_STATUS_COMPLETED) g),
                  failed = length (filter (\<lambda>r. fst r = JOB_STATUS_FAILED) g) \<rparr>))
          buckets)"

text \<open>\<open>daily_history\<close> of \<open>get_combined_analytics\<close> on each branch of the dialect test.\<close>

definition daily_history_sqlite :: "int \<Rightarrow> job list \<Rightarrow> job_archive list \<Rightarrow> daily_row list" where
  "daily_history_sqlite now db arch =
     daily_rows sqlite_day_bucket (\<lambda>b. b) now (combined db arch)"

definition daily_history_other ::
  "int \<Rightarrow> int \<Rightarrow> job list \<Rightarrow> job_archive list \<Rightarrow> daily_row list" where
  "daily_history_other utcoffset now db arch =
     daily_rows other_day_bucket (other_day_label utcoffset) now (combined db arch)"


section \<open>Floating point\<close>

text \<open>
  CPython's \<open>float\<close> is IEEE 754 binary64 and every operation rounds its exact result to
  the nearest double, ties to the even significand. \<open>binade x\<close> is the exponent \<open>e\<close>
  with \<open>2^e \<le> |x| < 2^(e+1)\<close>, and \<open>round_double\<close> rounds to 53 significant bits. This
  is the double of \<open>x\<close> for every \<open>x\<close> in the normal range (\<open>2^-1022 \<le> |x| < 2^1024\<close>);
  subnormal results and infinities are not modelled.
\<close>

definition round_half_even :: "real \<Rightarrow> int" where
  "round_half_even x =
     (let f = \<lfloor>x\<rfloor>; r = x - of_int f
      in if r < 1 / 2 then f else if 1 / 2 < r then f + 1 else if even f then f else f + 1)"

definition binade :: "real \<Rightarrow> int" where
  "binade x =
     (if 1 \<le> \<bar>x\<bar> then bitlen \<lfloor>\<bar>x\<bar>\<rfloor> - 1 else - bitlen (\<lceil>1 / \<bar>x\<bar>\<rceil> - 1))"

definition round_double :: "real \<Rightarrow> real" where
  "round_double x =
     (if x = 0 then 0
      else (let q = 2 powi (binade x - 52) in of_int (round_half_even (x / q)) * q))"

datatype py_error = HTTP_Error nat | IndexError | OverflowError | ZeroDivisionError

text \<open>
  The conversion of an \<open>int\<close> operand of \<open>/\<close>: it rounds, and raises \<open>OverflowError\<close>
  when the result is not a finite double.
\<close>

definition float_of_int :: "int \<Rightarrow> py_error + real" where
  "float_of_int n =
     (let x = round_double (of_int n)
      in if 2 ^ 1024 \<le> \<bar>x\<bar> then Inl OverflowError else Inr x)"

definition float_div :: "real \<Rightarrow> real \<Rightarrow> py_error + real" where
  "float_div x y = (if y = 0 then Inl ZeroDivisionError else Inr (round_double (x / y)))"

definition float_mul :: "real \<Rightarrow> real \<Rightarrow> real" where
  "float_mul x y = round_double (x * y)"

definition float_add :: "real \<Rightarrow> real \<Rightarrow> real" where
  "float_add x y = round_double (x + y)"

definition float_sub :: "real \<Rightarrow> real \<Rightarrow> real" where
  "float_sub x y = round_double (x - y)"

section \<open>Backend metrics and selection (routers/ollama.py)\<close>

text \<open>
  An entry of \<open>PERFORMANCE_STATS\<close> is a dictionary in which each of the three keys may
  be missing. \<open>origin\<close> stands for the library's \<open>urlparse\<close>: it gives
  \<open>scheme://netloc\<close> of a URL.
\<close>

record perf_stats =
  perf_avg_response_time :: "real option"
  perf_sample_count :: "nat option"
  perf_avg_tokens_per_second :: "real option"

record lb_memory =
  ACTIVE_JOB_STATS :: "string \<rightharpoonup> int"
  PERFORMANCE_STATS :: "string \<rightharpoonup> perf_stats"
  HEALTH_STATUS :: "string \<rightharpoonup> string"

text \<open>
  \<open>(alpha * tokens_per_second) + ((1 - alpha) * current_avg)\<close>, each operation in double
  precision.
\<close>

definition ema :: "real \<Rightarrow> real \<Rightarrow> real \<Rightarrow> real" where
  "ema alpha sample current_avg =
     float_add (float_mul alpha sample) (float_mul (float_sub 1 alpha) current_avg)"

definition update_token_stats_memory ::
  "(string \<rightharpoonup> perf_stats) \<Rightarrow> string \<Rightarrow> real \<Rightarrow> real \<Rightarrow> (string \<rightharpoonup> perf_stats)" where
  "update_token_stats_memory stats base tokens_per_second alpha =
     (case stats base of
        None \<Rightarrow>
          stats(base \<mapsto> \<lparr> perf_avg_response_time = None, perf_sample_count = None,
                           perf_avg_tokens_per_second = Some tokens_per_second \<rparr>)
      | Some p \<Rightarrow>
          (let current_avg = (case perf_avg_tokens_per_second p of None \<Rightarrow> 0 | Some a \<Rightarrow> a);
               new_avg = (if current_avg = 0 then tokens_per_second
                          else ema alpha tokens_per_second current_avg)
           in stats(base \<mapsto> p\<lparr>perf_avg_tokens_per_second := Some new_avg\<rparr>)))"

text \<open>
  \<open>eval_count / (eval_duration_nanos / 1_000_000_000.0)\<close>: the inner quotient is
  evaluated first, each \<open>int\<close> is converted when its division runs.
\<close>

definition tokens_per_second :: "int \<Rightarrow> int \<Rightarrow> py_error + real" where
  "tokens_per_second eval_count eval_duration_nanos =
     (case float_of_int eval_duration_nanos of
        Inl e \<Rightarrow> Inl e
      | Inr nanos \<Rightarrow>
          (case float_div nanos 1000000000 of
             Inl e \<Rightarrow> Inl e
           | Inr seconds \<Rightarrow>
               (case float_of_int eval_count of
                  Inl e \<Rightarrow> Inl e
                | Inr tokens \<Rightarrow> float_div tokens seconds)))"

text \<open>
  \<open>update_token_stats\<close>: the shared cache and \<open>PERFORMANCE_STATS\<close> afterwards, or the
  exception of the quotient. The literals \<open>0.1\<close> and \<open>0.3\<close> are the doubles nearest to
  them.
\<close>

definition update_token_stats ::
  "redis_store option \<Rightarrow> bool \<Rightarrow> (string \<rightharpoonup> perf_stats) \<Rightarrow> (string \<Rightarrow> string) \<Rightarrow> string
     \<Rightarrow> int \<Rightarrow> int \<Rightarrow> py_error + (redis_store option \<times> (string \<rightharpoonup> perf_stats))" where
  "update_token_stats redis raises stats origin url eval_count eval_duration_nanos =
     (let base = origin url in
      if eval_duration_nanos \<le> 0 then Inr (redis, stats)
      else
        (case tokens_per_second eval_count eval_duration_nanos of
           Inl e \<Rightarrow> Inl e
         | Inr tps \<Rightarrow>
             if tps < round_double (1 / 10) \<or> tps > 1000 then Inr (redis, stats)
             else
               (let alpha = round_double (3 / 10) in
                case redis of
                  None \<Rightarrow> Inr (redis, update_token_stats_memory stats base tps alpha)
                | Some r \<Rightarrow>
                    if raises
                    then Inr (redis, update_token_stats_memory stats base tps alpha)
                    else
                      (let key = ''perf_avg_tokens_per_second:'' @ base;
                           current_avg = (case floats r key of None \<Rightarrow> 0 | Some a \<Rightarrow> a);
                           new_avg = (if current_avg = 0 then tps
                                      else ema alpha tps current_avg)
                       in Inr (Some (r\<lparr>floats := (floats r)(key \<mapsto> new_avg)\<rparr>), stats)))))"

text \<open>The stored average as \<open>get_server_stats\<close> reads it back, 0.0 when there is none.\<close>

definition avg_tokens_per_second ::
  "redis_store option \<Rightarrow> bool \<Rightarrow> (string \<rightharpoonup> perf_stats) \<Rightarrow> string \<Rightarrow> real" where
  "avg_tokens_per_second redis raises stats base =
     (let from_memory =
            (case stats base of
               None \<Rightarrow> 0
             | Some p \<Rightarrow> (case perf_avg_tokens_per_second p of None \<Rightarrow> 0 | Some a \<Rightarrow> a))
      in case redis of
           None \<Rightarrow> from_memory
         | Some r \<Rightarrow>
             if raises then from_memory
             else (case floats r (''perf_avg_tokens_per_second:'' @ base) of
                     None \<Rightarrow> 0 | Some a \<Rightarrow> a))"

text \<open>The three readings \<open>get_ollama_url\<close> makes for a candidate.\<close>

definition read_active_jobs :: "redis_store option \<Rightarrow> bool \<Rightarrow> lb_memory \<Rightarrow> string \<Rightarrow> int" where
  "read_active_jobs redis raises mem base =
     (let from_memory = (case ACTIVE_JOB_STATS mem base of None \<Rightarrow> 0 | Some n \<Rightarrow> n)
      in case redis of
           None \<Rightarrow> from_memory
         | Some r \<Rightarrow>
             if raises then from_memory
             else (case counters r (''active_jobs:'' @ base) of None \<Rightarrow> 0 | Some n \<Rightarrow> n))"

definition read_avg_response_time ::
  "redis_store option \<Rightarrow> bool \<Rightarrow> lb_memory \<Rightarrow> string \<Rightarrow> real" where
  "read_avg_response_time redis raises mem base =
     (let from_memory =
            (case PERFORMANCE_STATS mem base of
               None \<Rightarrow> 0
             | Some p \<Rightarrow> (case perf_avg_response_time p of None \<Rightarrow> 0 | Some a \<Rightarrow> a))
      in case redis of
           None \<Rightarrow> from_memory
         | Some r \<Rightarrow>
             if raises then from_memory
             else (case floats r (''perf_avg_response_time:'' @ base) of
                     None \<Rightarrow> 0 | Some a \<Rightarrow> a))"

text \<open>
  \<open>get_health_status\<close>. With a cache that holds no entry for the key the function runs
  off its end and returns Python's \<open>None\<close>, here \<open>None\<close>.
\<close>

definition get_health_status ::
  "redis_store option \<Rightarrow> bool \<Rightarrow> lb_memory \<Rightarrow> string \<Rightarrow> string option" where
  "get_health_status redis raises mem base =
     (let from_memory =
            (case HEALTH_STATUS mem base of None \<Rightarrow> Some ''unknown'' | Some st \<Rightarrow> Some st)
      in case redis of
           None \<Rightarrow> from_memory
         | Some r \<Rightarrow>
             if raises then from_memory
             else (case health r (''health_status:'' @ base) of
                     None \<Rightarrow> None | Some st \<Rightarrow> Some st))"

record server_metrics =
  idx :: nat
  base_url :: string
  active_jobs :: int
  avg_response_time :: real
  health_status :: "string option"

text \<open>
  The first loop of \<open>get_ollama_url\<close>: one metrics dictionary per candidate index;
  \<open>OLLAMA_BASE_URLS[idx]\<close> raises \<open>IndexError\<close> out of range.
\<close>

fun collect_metrics ::
  "string list \<Rightarrow> redis_store option \<Rightarrow> bool \<Rightarrow> lb_memory \<Rightarrow> (string \<Rightarrow> string) \<Rightarrow> nat list
     \<Rightarrow> py_error + server_metrics list" where
  "collect_metrics urls redis raises mem origin [] = Inr []"
| "collect_metrics urls redis raises mem origin (i # rest) =
     (if i \<ge> length urls then Inl IndexError
      else
        (let base = origin (urls ! i);
             m = \<lparr> idx = i, base_url = base,
                   active_jobs = read_active_jobs redis raises mem base,
                   avg_response_time = read_avg_response_time redis raises mem base,
                   health_status = get_health_status redis raises mem base \<rparr>
         in case collect_metrics urls redis raises mem origin rest of
              Inl e \<Rightarrow> Inl e
            | Inr ms \<Rightarrow> Inr (m # ms)))"

text \<open>
  The scoring loop. \<open>min_score\<close> starts at \<open>float('inf')\<close>, here \<open>None\<close>: every
  finite score is below it.
\<close>

definition score_of :: "real \<Rightarrow> real \<Rightarrow> server_metrics \<Rightarrow> real" where
  "score_of active_jobs_weight response_time_weight metrics =
     active_jobs_weight * real_of_int (active_jobs metrics)
     + response_time_weight * (avg_response_time metrics / 1000)"

fun pick_best ::
  "real \<Rightarrow> real \<Rightarrow> real option \<times> nat option \<Rightarrow> server_metrics list
     \<Rightarrow> real option \<times> nat option" where
  "pick_best wj wr acc [] = acc"
| "pick_best wj wr (min_score, best_url_idx) (metrics # rest) =
     (let score = score_of wj wr metrics
      in if (case min_score of None \<Rightarrow> True | Some m \<Rightarrow> score < m)
         then pick_best wj wr (Some score, Some (idx metrics)) rest
         else pick_best wj wr (min_score, best_url_idx) rest)"

text \<open>
  \<open>get_ollama_url\<close>. \<open>models\<close> gives the \<open>urls\<close> list of a model
  (\<open>OLLAMA_MODELS\<close>), \<open>wj\<close> and \<open>wr\<close> are \<open>OLLAMA_LB_ACTIVE_JOBS_WEIGHT\<close> and
  \<open>OLLAMA_LB_RESPONSE_TIME_WEIGHT\<close>, and \<open>rnd\<close> is the position \<open>random.choice\<close> would
  draw.
\<close>

definition get_ollama_url ::
  "(string \<rightharpoonup> nat list) \<Rightarrow> string list \<Rightarrow> redis_store option \<Rightarrow> bool \<Rightarrow> lb_memory
     \<Rightarrow> real \<Rightarrow> real \<Rightarrow> (string \<Rightarrow> string) \<Rightarrow> nat \<Rightarrow> string \<Rightarrow> nat option
     \<Rightarrow> py_error + (string \<times> nat)" where
  "get_ollama_url models urls redis raises mem wj wr origin rnd mdl url_idx =
     (let chosen =
        (case url_idx of
           Some i \<Rightarrow> Inr i
         | None \<Rightarrow>
             (case models mdl of
                None \<Rightarrow> Inl (HTTP_Error 400)
              | Some candidate_urls \<Rightarrow>
                  if candidate_urls = [] then Inl (HTTP_Error 400)
                  else
                    (case collect_metrics urls redis raises mem origin candidate_urls of
                       Inl e \<Rightarrow> Inl e
                     | Inr server_metrics \<Rightarrow>
                         (let healthy_metrics =
                                filter (\<lambda>m. health_status m \<noteq> Some ''unhealthy'')
                                  server_metrics;
                              healthy_metrics =
                                (if healthy_metrics = [] then server_metrics
                                 else healthy_metrics);
                              best_url_idx =
                                snd (pick_best wj wr (None, None) healthy_metrics)
                          in case best_url_idx of
                               Some b \<Rightarrow> Inr b
                             | None \<Rightarrow>
                                 Inr (candidate_urls ! (rnd mod length candidate_urls))))))
      in case chosen of
           Inl e \<Rightarrow> Inl e
         | Inr i \<Rightarrow> if i \<ge> length urls then Inl IndexError else Inr (urls ! i, i))"

definition empty_memory :: lb_memory where
  "empty_memory = \<lparr> ACTIVE_JOB_STATS = Map.empty, PERFORMANCE_STATS = Map.empty,
                     HEALTH_STATUS = Map.empty \<rparr>"

text \<open>One model served by two backends.\<close>

definition example_models :: "string \<rightharpoonup> nat list" where
  "example_models = [''llama3'' \<mapsto> [0, 1]]"

definition example_urls :: "string list" where
  "example_urls = [''http://a:11434'', ''http://b:11434'']"

lemmas status_defs =
  JOB_STATUS_QUEUED_def JOB_STATUS_RUNNING_def JOB_STATUS_COMPLETED_def
  JOB_STATUS_FAILED_def JOB_STATUS_CANCELLED_def

section \<open>Properties of the job table\<close>

lemma get_row_put_row:
  "get_row db i = Some j \<Longrightarrow> job_id j' = i \<Longrightarrow> get_row (put_row db j') i = Some j'"
  unfolding get_row_def put_row_def
  by (induction db) (auto split: if_splits)

lemma get_row_job_id: "get_row db i = Some j \<Longrightarrow> job_id j = i"
  unfolding get_row_def by (auto simp: find_Some_iff)

lemma get_row_append_fresh:
  "i \<notin> job_id ` set db \<Longrightarrow> job_id j = i \<Longrightarrow> get_row (db @ [j]) i = Some j"
  unfolding get_row_def by (induction db) auto

lemma distinct_ids_eq:
  "distinct (map job_id db) \<Longrightarrow> j \<in> set db \<Longrightarrow> k \<in> set db \<Longrightarrow> job_id k = job_id j \<longleftrightarrow> k = j"
  by (auto simp: distinct_map inj_on_def)

lemma put_row_distinct:
  assumes "distinct (map job_id db)" "j \<in> set db" "job_id j' = job_id j"
  shows "put_row db j' = map (\<lambda>k. if k = j then j' else k) db"
  unfolding put_row_def
  by (rule map_cong) (use assms distinct_ids_eq in auto)

lemma update_job_running_row:
  assumes "get_row db i = Some j"
  shows "get_row (fst (update_job_running db i None now)) i =
           Some (j\<lparr>status := JOB_STATUS_RUNNING, attempt_count := attempt_count j + 1,
                   updated_at := now\<rparr>)"
  using assms get_row_job_id[OF assms]
  by (simp add: update_job_running_def Let_def get_row_put_row)

lemma update_job_completed_row:
  assumes "get_row db i = Some j"
  shows "get_row (fst (update_job_completed db i res now)) i =
           Some (j\<lparr>status := JOB_STATUS_COMPLETED, result := Some res, error := None,
                   updated_at := now\<rparr>)"
  using assms get_row_job_id[OF assms]
  by (simp add: update_job_completed_def Let_def get_row_put_row)

lemma update_job_failed_row:
  assumes "get_row db i = Some j"
  shows "get_row (fst (update_job_failed db i err requeue now)) i =
           Some (j\<lparr>error := Some err,
                   status := (if requeue \<and> attempt_count j < max_attempts j
                              then JOB_STATUS_QUEUED else JOB_STATUS_FAILED),
                   updated_at := now\<rparr>)"
  using assms get_row_job_id[OF assms]
  by (simp add: update_job_failed_def Let_def get_row_put_row)

subsection \<open>Failure and re-queueing\<close>

text \<open>
  C4. For every existing job, \<open>update_job_failed\<close> (the store's \<open>mark_failed\<close>) records
  the error and leaves the job \<open>queued\<close> exactly when \<open>requeue\<close> is set and
  \<open>attempt_count < max_attempts\<close>, and \<open>failed\<close> otherwise; with \<open>requeue\<close> set it
  gives \<open>failed\<close> at \<open>attempt_count = max_attempts\<close> and \<open>queued\<close> below it. The
  counters are not changed, and the row returned is the row stored.
\<close>

theorem update_job_failed_requeue_rule:
  assumes "get_row db i = Some j"
  shows "\<exists>j'. update_job_failed db i err requeue now = (put_row db j', Some j')
           \<and> get_row (put_row db j') i = Some j'
           \<and> error j' = Some err
           \<and> status j' = (if requeue \<and> attempt_count j < max_attempts j
                          then JOB_STATUS_QUEUED else JOB_STATUS_FAILED)
           \<and> (requeue \<and> attempt_count j = max_attempts j \<longrightarrow> status j' = JOB_STATUS_FAILED)
           \<and> (requeue \<and> attempt_count j < max_attempts j \<longrightarrow> status j' = JOB_STATUS_QUEUED)
           \<and> attempt_count j' = attempt_count j \<and> max_attempts j' = max_attempts j
           \<and> updated_at j' = now"
proof -
  have i: "job_id j = i" using assms by (rule get_row_job_id)
  define j' where "j' = (if requeue \<and> attempt_count j < max_attempts j
        then j\<lparr>error := Some err, status := JOB_STATUS_QUEUED, updated_at := now\<rparr>
        else j\<lparr>error := Some err, status := JOB_STATUS_FAILED, updated_at := now\<rparr>)"
  have run: "update_job_failed db i err requeue now = (put_row db j', Some j')"
    using assms by (simp add: update_job_failed_def j'_def Let_def)
  have id': "job_id j' = i" using i by (simp add: j'_def)
  have stored: "get_row (put_row db j') i = Some j'"
    using assms id' by (rule get_row_put_row)
  show ?thesis
    using run stored by (intro exI[of _ j']) (auto simp: j'_def)
qed

theorem update_job_failed_requeue_rule_witness:
  "status (the (snd (update_job_failed
      [make_mock_job ''j1'' ''u1'' JOB_STATUS_RUNNING 1 1 5 100] ''j1'' ''timeout'' True 200)))
     = JOB_STATUS_FAILED
   \<and> status (the (snd (update_job_failed
      [make_mock_job ''j1'' ''u1'' JOB_STATUS_RUNNING 1 3 5 100] ''j1'' ''timeout'' True 200)))
     = JOB_STATUS_QUEUED"
proof -
  let ?a = "make_mock_job ''j1'' ''u1'' JOB_STATUS_RUNNING 1 1 5 100"
  let ?b = "make_mock_job ''j1'' ''u1'' JOB_STATUS_RUNNING 1 3 5 100"
  have a: "get_row [?a] ''j1'' = Some ?a" by (simp add: get_row_def make_mock_job_def)
  have b: "get_row [?b] ''j1'' = Some ?b" by (simp add: get_row_def make_mock_job_def)
  from update_job_failed_requeue_rule[OF a, of "''timeout''" True 200]
  have 1: "status (the (snd (update_job_failed [?a] ''j1'' ''timeout'' True 200)))
             = JOB_STATUS_FAILED"
    by (auto simp: make_mock_job_def)
  from update_job_failed_requeue_rule[OF b, of "''timeout''" True 200]
  have 2: "status (the (snd (update_job_failed [?b] ''j1'' ''timeout'' True 200)))
             = JOB_STATUS_QUEUED"
    by (auto simp: make_mock_job_def)
  show ?thesis using 1 2 by simp
qed

subsection \<open>The claim\<close>






lemma claim_next_when_both_transactions_fail:
  "claim_next_queued_job db now True True = (db, None)"
  by (simp add: claim_next_queued_job_def)




subsection \<open>Submission and its worker\<close>

lemma claim_order_of_new_job:
  assumes "\<forall>k\<in>set db. status k \<noteq> JOB_STATUS_QUEUED" "status j = JOB_STATUS_QUEUED"
  shows "queued_in_claim_order (db @ [j]) = [j]"
proof -
  have "filter (\<lambda>k. status k = JOB_STATUS_QUEUED) db = []"
    using assms(1) by (simp add: filter_empty_conv)
  then show ?thesis using assms(2) by (simp add: queued_in_claim_order_def)
qed

lemma claim_commit_of_new_job:
  assumes "job_id j \<notin> job_id ` set db"
  shows "claim_commit (db @ [j]) j now =
           (db @ [j\<lparr>status := JOB_STATUS_RUNNING, attempt_count := attempt_count j + 1,
                    updated_at := now\<rparr>],
            Some (job_id j))"
proof -
  have "map (\<lambda>k. if job_id k = job_id j
                  then k\<lparr>status := JOB_STATUS_RUNNING, attempt_count := attempt_count j + 1,
                         updated_at := now\<rparr>
                  else k) db = db"
    using assms by (induction db) auto
  then show ?thesis by (simp add: claim_commit_def Let_def)
qed

text \<open>
  C10. As stated the claim does not hold: the job the handler stores is \<open>queued\<close>, so the
  scheduler's claim can take it. On an empty table, a claim right after the submission
  returns the submitted job; a claim after the worker's failed first attempt returns it
  again and leaves \<open>attempt_count\<close> at 2.
\<close>

theorem submitted_job_is_claimed_by_scheduler:
  "snd (claim_next_queued_job
          (fst (submit_job {''llama3''} [] example_form example_caller 100 ''j1'' False))
          101 False False) = Some ''j1''
   \<and> snd (claim_next_queued_job
            (run_job
               (fst (submit_job {''llama3''} [] example_form example_caller 100 ''j1'' False))
               ''j1'' (Raised ''boom'') 101 102)
            103 False False) = Some ''j1''
   \<and> map attempt_count
        (fst (claim_next_queued_job
                (run_job
                   (fst (submit_job {''llama3''} [] example_form example_caller 100 ''j1''
                           False))
                   ''j1'' (Raised ''boom'') 101 102)
                103 False False)) = [2]"
  by (simp add: submit_job_def insert_new_job_def example_form_def example_caller_def
      run_job_def run_job_begin_def run_job_end_def update_job_running_def
      update_job_failed_def get_row_def put_row_def claim_next_queued_job_def
      claim_transaction_def claim_select_def claim_commit_def queued_in_claim_order_def
      status_defs Let_def)

text \<open>
  C10, amended. A submission of a known model whose insert succeeds (with a fresh id)
  answers 202 with status \<open>queued\<close>, stores the job as \<open>queued\<close> with
  \<open>attempt_count = 0\<close> and no backend, and hands \<open>create_task\<close> the worker \<open>_run_job\<close>
  for that very job. The worker's first write is \<open>update_job_running\<close> without a backend
  URL: run right after the submission it leaves the row \<open>running\<close> with
  \<open>attempt_count = 1\<close> and \<open>backend_url\<close> still empty. Its last write leaves the row
  \<open>completed\<close> with the result when the backend call returns, and back in \<open>queued\<close>
  with the error when it raises (one attempt of three is used, so \<open>update_job_failed\<close>
  re-queues). The worker itself makes no claim, but the stored row is open to the
  scheduler: when no other row is queued, a claim between the submission and the worker's
  first write takes this job, and the worker's \<open>update_job_running\<close> then makes
  \<open>attempt_count\<close> 2.
\<close>

theorem submit_job_runs_its_own_worker:
  assumes known: "model form_data \<in> MODELS"
    and ins: "\<not> insert_fails"
    and fresh: "new_id \<notin> job_id ` set db"
  shows "case insert_new_job db (uid usr) (model form_data) (submit_payload form_data)
                (case job_priority usr of None \<Rightarrow> 5 | Some p \<Rightarrow> p) 3 now new_id of
           (db1, j0) \<Rightarrow>
             submit_job MODELS db form_data usr now new_id insert_fails =
               (db1,
                JSONResponse 202
                  [(''job_id'', JStr new_id), (''status'', JStr ''queued''),
                   (''model_id'', JStr (model form_data)), (''created_at'', JInt now)],
                Some (new_id, submit_payload form_data, usr))
             \<and> get_row db1 new_id = Some j0
             \<and> status j0 = JOB_STATUS_QUEUED \<and> attempt_count j0 = 0
             \<and> max_attempts j0 = 3 \<and> backend_url j0 = None
             \<and> run_job_begin db1 new_id t1 = fst (update_job_running db1 new_id None t1)
             \<and> get_row (run_job_begin db1 new_id t1) new_id =
                  Some (j0\<lparr>status := JOB_STATUS_RUNNING, attempt_count := 1, updated_at := t1\<rparr>)
             \<and> get_row (run_job db1 new_id (Returned res) t1 t2) new_id =
                  Some (j0\<lparr>status := JOB_STATUS_COMPLETED, attempt_count := 1,
                          result := Some res, error := None, updated_at := t2\<rparr>)
             \<and> get_row (run_job db1 new_id (Raised msg) t1 t2) new_id =
                  Some (j0\<lparr>status := JOB_STATUS_QUEUED, attempt_count := 1,
                          error := Some msg, updated_at := t2\<rparr>)
             \<and> ((\<forall>k\<in>set db. status k \<noteq> JOB_STATUS_QUEUED) \<longrightarrow>
                    claim_next_queued_job db1 tc False False =
                      (db @ [j0\<lparr>status := JOB_STATUS_RUNNING, attempt_count := 1,
                                 updated_at := tc\<rparr>],
                       Some new_id)
                    \<and> get_row (run_job_begin
                                  (fst (claim_next_queued_job db1 tc False False)) new_id t1)
                          new_id =
                        Some (j0\<lparr>status := JOB_STATUS_RUNNING, attempt_count := 2,
                                updated_at := t1\<rparr>))"
proof -
  obtain db1 j0 where ins_eq:
    "insert_new_job db (uid usr) (model form_data) (submit_payload form_data)
       (case job_priority usr of None \<Rightarrow> 5 | Some p \<Rightarrow> p) 3 now new_id = (db1, j0)"
    by (cases "insert_new_job db (uid usr) (model form_data) (submit_payload form_data)
       (case job_priority usr of None \<Rightarrow> 5 | Some p \<Rightarrow> p) 3 now new_id") auto
  then have db1: "db1 = db @ [j0]"
    and j0: "job_id j0 = new_id" "status j0 = JOB_STATUS_QUEUED" "attempt_count j0 = 0"
      "max_attempts j0 = 3" "backend_url j0 = None" "model_id j0 = Some (model form_data)"
      "created_at j0 = now"
    by (auto simp: insert_new_job_def Let_def)
  have resp: "submit_job MODELS db form_data usr now new_id insert_fails =
      (db1,
       JSONResponse 202
         [(''job_id'', JStr new_id), (''status'', JStr ''queued''),
          (''model_id'', JStr (model form_data)), (''created_at'', JInt now)],
       Some (new_id, submit_payload form_data, usr))"
    using known ins ins_eq j0 by (simp add: submit_job_def Let_def JOB_STATUS_QUEUED_def)
  have row0: "get_row db1 new_id = Some j0"
    unfolding db1 using fresh j0(1) by (rule get_row_append_fresh)
  let ?j1 = "j0\<lparr>status := JOB_STATUS_RUNNING, attempt_count := attempt_count j0 + 1,
                  updated_at := t1\<rparr>"
  have row1: "get_row (run_job_begin db1 new_id t1) new_id = Some ?j1"
    unfolding run_job_begin_def using row0 by (rule update_job_running_row)
  have fin: "get_row (run_job db1 new_id (Returned res) t1 t2) new_id =
      Some (?j1\<lparr>status := JOB_STATUS_COMPLETED, result := Some res, error := None,
               updated_at := t2\<rparr>)"
    using update_job_completed_row[OF row1] by (simp add: run_job_def run_job_end_def)
  have again: "get_row (run_job db1 new_id (Raised msg) t1 t2) new_id =
      Some (?j1\<lparr>error := Some msg,
               status := (if True \<and> attempt_count ?j1 < max_attempts ?j1
                          then JOB_STATUS_QUEUED else JOB_STATUS_FAILED),
               updated_at := t2\<rparr>)"
    using update_job_failed_row[OF row1] by (simp add: run_job_def run_job_end_def)
  have sched: "claim_next_queued_job db1 tc False False =
                 (db @ [j0\<lparr>status := JOB_STATUS_RUNNING, attempt_count := 1,
                            updated_at := tc\<rparr>],
                  Some new_id)
               \<and> get_row (run_job_begin
                             (fst (claim_next_queued_job db1 tc False False)) new_id t1)
                     new_id =
                   Some (j0\<lparr>status := JOB_STATUS_RUNNING, attempt_count := 2,
                           updated_at := t1\<rparr>)"
    if idle: "\<forall>k\<in>set db. status k \<noteq> JOB_STATUS_QUEUED"
  proof -
    let ?jc = "j0\<lparr>status := JOB_STATUS_RUNNING, attempt_count := attempt_count j0 + 1,
                    updated_at := tc\<rparr>"
    have fresh0: "job_id j0 \<notin> job_id ` set db" using fresh j0(1) by simp
    have claim: "claim_next_queued_job db1 tc False False = (db @ [?jc], Some new_id)"
      using claim_order_of_new_job[OF idle j0(2)] claim_commit_of_new_job[OF fresh0, of tc]
        j0(1)
      by (simp add: claim_next_queued_job_def claim_transaction_def claim_select_def db1)
    have "get_row (db @ [?jc]) new_id = Some ?jc"
      using fresh j0(1) by (intro get_row_append_fresh) simp_all
    from update_job_running_row[OF this, of t1]
    have "get_row (run_job_begin (db @ [?jc]) new_id t1) new_id =
            Some (j0\<lparr>status := JOB_STATUS_RUNNING, attempt_count := 2, updated_at := t1\<rparr>)"
      using j0(3) by (simp add: run_job_begin_def)
    then show ?thesis using claim j0(3) by simp
  qed
  have first_write: "run_job_begin db1 new_id t1 = fst (update_job_running db1 new_id None t1)"
    by (simp add: run_job_begin_def)
  have row1': "get_row (run_job_begin db1 new_id t1) new_id =
      Some (j0\<lparr>status := JOB_STATUS_RUNNING, attempt_count := 1, updated_at := t1\<rparr>)"
    using row1 j0(3) by simp
  have fin': "get_row (run_job db1 new_id (Returned res) t1 t2) new_id =
      Some (j0\<lparr>status := JOB_STATUS_COMPLETED, attempt_count := 1,
              result := Some res, error := None, updated_at := t2\<rparr>)"
    using fin j0(3) by simp
  have again': "get_row (run_job db1 new_id (Raised msg) t1 t2) new_id =
      Some (j0\<lparr>status := JOB_STATUS_QUEUED, attempt_count := 1,
              error := Some msg, updated_at := t2\<rparr>)"
    using again j0(3,4) by simp
  show ?thesis
    unfolding ins_eq prod.case
    using resp row0 j0(2,3,4,5) first_write row1' fin' again' sched
    by blast
qed

theorem submit_job_runs_its_own_worker_witness:
  "model example_form \<in> {''llama3''} \<and> ''j1'' \<notin> job_id ` set []
   \<and> fst (snd (submit_job {''llama3''} [] example_form example_caller 100 ''j1'' False)) =
        JSONResponse 202
          [(''job_id'', JStr ''j1''), (''status'', JStr ''queued''),
           (''model_id'', JStr ''llama3''), (''created_at'', JInt 100)]
   \<and> map_option (\<lambda>j. (status j, attempt_count j, backend_url j))
        (get_row (run_job_begin
           (fst (submit_job {''llama3''} [] example_form example_caller 100 ''j1'' False))
           ''j1'' 101) ''j1'') = Some (''running'', 1, None)
   \<and> map_option (\<lambda>j. (status j, attempt_count j, error j))
        (get_row (run_job
           (fst (submit_job {''llama3''} [] example_form example_caller 100 ''j1'' False))
           ''j1'' (Raised ''boom'') 101 102) ''j1'') = Some (''queued'', 1, Some ''boom'')
   \<and> snd (claim_next_queued_job
            (fst (submit_job {''llama3''} [] example_form example_caller 100 ''j1'' False))
            101 False False) = Some ''j1''"
proof -
  have known: "model example_form \<in> {''llama3''}" by (simp add: example_form_def)
  have ins: "\<not> False" by simp
  have fresh: "''j1'' \<notin> job_id ` set []" by simp
  show ?thesis
    using known
      submit_job_runs_its_own_worker[OF known ins fresh, of example_caller 100 101 "[]" 102
        "''boom''" 101]
    by (simp add: insert_new_job_def Let_def status_defs example_form_def example_caller_def
        run_job_def run_job_begin_def run_job_end_def update_job_running_def
        update_job_failed_def get_row_def put_row_def)
qed

subsection \<open>Writes on a terminal row\<close>

lemma update_job_completed_is_terminal:
  "get_row db i = Some j \<Longrightarrow>
     map_option status (get_row (fst (update_job_completed db i res now)) i)
       = Some JOB_STATUS_COMPLETED"
  by (simp add: update_job_completed_row)

lemma update_job_cancelled_keeps_terminal:
  "get_row db i = Some j \<Longrightarrow> status j \<in> TERMINAL_STATUSES \<Longrightarrow>
     update_job_cancelled db i now = (db, Some j)"
  by (simp add: update_job_cancelled_def)

lemma update_job_failed_leaves_terminal_state:
  assumes "get_row db i = Some j" "status j \<in> TERMINAL_STATUSES"
    and "attempt_count j < max_attempts j"
  shows "map_option status (get_row (fst (update_job_failed db i err True now)) i)
           = Some JOB_STATUS_QUEUED"
  using assms by (simp add: update_job_failed_row)

text \<open>
  C2. The claim is that no operation but the admin retry takes a terminal job to a
  non-terminal status, and that \<open>mark_failed\<close> never gives \<open>queued\<close> or \<open>running\<close> on
  a terminal job. \<open>update_job_failed\<close> does not look at the current status: on a
  cancelled job with one attempt of three used, \<open>requeue=True\<close> stores \<open>queued\<close>.
  \<open>update_job_running\<close> does not look at it either: a completed job becomes
  \<open>running\<close>. (\<open>update_job_cancelled\<close> has the guard, and \<open>update_job_completed\<close> can
  only store the terminal \<open>completed\<close>.)
\<close>

theorem update_job_failed_requeues_terminal_job:
  "status (make_mock_job ''j1'' ''u1'' JOB_STATUS_CANCELLED 1 3 5 100) \<in> TERMINAL_STATUSES
   \<and> map status (fst (update_job_failed
          [make_mock_job ''j1'' ''u1'' JOB_STATUS_CANCELLED 1 3 5 100]
          ''j1'' ''boom'' True 200)) = [JOB_STATUS_QUEUED]
   \<and> JOB_STATUS_QUEUED \<notin> TERMINAL_STATUSES
   \<and> map status (fst (update_job_running
          [make_mock_job ''j1'' ''u1'' JOB_STATUS_COMPLETED 1 3 5 100]
          ''j1'' None 200)) = [JOB_STATUS_RUNNING]
   \<and> JOB_STATUS_RUNNING \<notin> TERMINAL_STATUSES"
  by (simp add: update_job_failed_def update_job_running_def get_row_def put_row_def
      make_mock_job_def TERMINAL_STATUSES_def status_defs Let_def)

text \<open>
  C3. The claim is that a worker's terminal write does not overwrite a row that is
  already \<open>cancelled\<close>. Neither worker checks: a running job is cancelled, and the write
  that follows the backend call stores \<open>completed\<close> (both in \<open>_run_job\<close> and in the
  scheduler's \<open>_execute_job\<close>); when the backend call raises instead, the cancelled job
  is put back in \<open>queued\<close>.
\<close>

theorem worker_overwrites_cancelled_job:
  "map status (fst (update_job_cancelled
       [make_mock_job ''j1'' ''u1'' JOB_STATUS_RUNNING 1 3 5 100] ''j1'' 200))
     = [JOB_STATUS_CANCELLED]
   \<and> map status (run_job_end
         (fst (update_job_cancelled
            [make_mock_job ''j1'' ''u1'' JOB_STATUS_RUNNING 1 3 5 100] ''j1'' 200))
         ''j1'' (Returned [(''done'', JBool True)]) 300)
     = [JOB_STATUS_COMPLETED]
   \<and> map status (execute_job_end True
         (fst (update_job_cancelled
            [make_mock_job ''j1'' ''u1'' JOB_STATUS_RUNNING 1 3 5 100] ''j1'' 200))
         ''j1'' (Returned [(''done'', JBool True)]) 300)
     = [JOB_STATUS_COMPLETED]
   \<and> map status (run_job_end
         (fst (update_job_cancelled
            [make_mock_job ''j1'' ''u1'' JOB_STATUS_RUNNING 1 3 5 100] ''j1'' 200))
         ''j1'' (Raised ''timeout'') 300)
     = [JOB_STATUS_QUEUED]"
  by (simp add: update_job_cancelled_def update_job_completed_def update_job_failed_def
      run_job_end_def execute_job_end_def get_row_def put_row_def
      make_mock_job_def TERMINAL_STATUSES_def status_defs Let_def)

subsection \<open>Polling\<close>

lemma get_job_on_cache_miss:
  assumes "get_cached_job redis raises i = None"
  shows "fst (get_job redis raises db i include_result usr) =
           (case get_row db i of
              None \<Rightarrow> HTTPException 404
            | Some j \<Rightarrow>
                if user_id j \<noteq> uid usr then HTTPException 403
                else JSONResponse 200
                       (if include_result then to_response j
                        else dict_set ''result'' JNull (to_response j)))"
  using assms
  by (simp add: get_job_def get_job_by_id_def Let_def split: option.splits)

lemma to_response_has_no_user_id: "map_of (to_response j) ''user_id'' = None"
  by (simp add: to_response_def)

text \<open>
  C6. The claim is that the owner of a job is never refused. With a cache configured, the
  owner's first poll of a completed job answers 200 and stores the response dictionary
  under \<open>job:j1\<close>; that dictionary has no \<open>user_id\<close> key, so on the next poll
  \<open>cached.get("user_id") != user.id\<close> holds and the owner gets 403.
\<close>

theorem get_job_refuses_owner_on_cache_hit:
  "user_id example_done = uid example_caller
   \<and> fst (get_job (Some empty_redis) False [example_done] ''j1'' True example_caller)
       = JSONResponse 200 (to_response example_done)
   \<and> fst (get_job
            (snd (get_job (Some empty_redis) False [example_done] ''j1'' True example_caller))
            False [example_done] ''j1'' True example_caller)
       = HTTPException 403"
  by (simp add: get_job_def get_cached_job_def cache_job_def get_job_by_id_def get_row_def
      to_response_def example_done_def example_caller_def empty_redis_def make_mock_job_def
      TERMINAL_STATUSES_def status_defs opt_str_def opt_dict_def Let_def)

subsection \<open>The archive sweep\<close>

lemma archive_old_jobs_success:
  "archive_old_jobs db arch days t_cutoff t_now No_Fault = ((db', arch'), n) \<Longrightarrow>
     n = int (length (filter (\<lambda>j. status j \<in> TERMINAL_STATUSES
                                  \<and> updated_at j < t_cutoff - days * 86400) db))
     \<and> arch' = arch @ map (to_archive_row t_now)
                  (filter (\<lambda>j. status j \<in> TERMINAL_STATUSES
                                 \<and> updated_at j < t_cutoff - days * 86400) db)"
  by (auto simp: archive_old_jobs_def Let_def)

lemma archive_old_jobs_early_error:
  "archive_old_jobs db arch days t_cutoff t_now Raises_Before_Count = ((db, arch), 0)"
  by (simp add: archive_old_jobs_def Let_def)

text \<open>
  C7. The claim is that any database error during the sweep, a failure of the final
  commit included, makes \<open>archive_old_jobs\<close> return 0. The count is assigned before
  \<open>db.commit()\<close>: when the commit raises, one old completed row is still in the active
  table, the archive is still empty, and the function returns 1.
\<close>

theorem archive_old_jobs_counts_uncommitted_rows:
  "archive_old_jobs [make_mock_job ''j1'' ''u1'' JOB_STATUS_COMPLETED 1 3 5 100] []
      30 4000000 4000000 Raises_In_Commit
     = (([make_mock_job ''j1'' ''u1'' JOB_STATUS_COMPLETED 1 3 5 100], []), 1)"
  by (simp add: archive_old_jobs_def make_mock_job_def TERMINAL_STATUSES_def status_defs Let_def)

subsection \<open>Rounding to double precision\<close>

lemma binade_bounds:
  assumes "x \<noteq> 0"
  shows "2 powi binade x \<le> \<bar>x\<bar> \<and> \<bar>x\<bar> < 2 powi (binade x + 1)"
proof (cases "1 \<le> \<bar>x\<bar>")
  case True
  define n where "n = \<lfloor>\<bar>x\<bar>\<rfloor>"
  have n: "0 < n" using True by (simp add: n_def)
  define b where "b = bitlen n"
  have b: "2 ^ nat (b - 1) \<le> n" "n < 2 ^ nat b"
    using bitlen_bounds[OF n] by (simp_all add: b_def)
  have bpos: "0 < b" using b(2) n by (cases "0 < b") auto
  have e: "binade x = b - 1" using True by (simp add: binade_def n_def b_def)
  have "(2::real) powi (b - 1) = of_int (2 ^ nat (b - 1))"
    using bpos by (simp add: power_int_def)
  also have "\<dots> \<le> of_int n" using b(1) by (simp only: of_int_le_iff)
  also have "\<dots> \<le> \<bar>x\<bar>" by (simp add: n_def)
  finally have lo: "2 powi (b - 1) \<le> \<bar>x\<bar>" .
  have "\<bar>x\<bar> < of_int (n + 1)" unfolding n_def by linarith
  also have "\<dots> \<le> of_int (2 ^ nat b)" using b(2) by (simp only: of_int_le_iff)
  also have "\<dots> = (2::real) powi b" using bpos by (simp add: power_int_def)
  finally have hi: "\<bar>x\<bar> < 2 powi b" .
  show ?thesis using lo hi by (simp add: e)
next
  case False
  define y where "y = 1 / \<bar>x\<bar>"
  have a: "0 < \<bar>x\<bar>" "\<bar>x\<bar> < 1" using assms False by auto
  have y: "1 < y" using a by (simp add: y_def)
  define m where "m = \<lceil>y\<rceil> - 1"
  have m: "0 < m" using y unfolding m_def by linarith
  define b where "b = bitlen m"
  have b: "2 ^ nat (b - 1) \<le> m" "m < 2 ^ nat b"
    using bitlen_bounds[OF m] by (simp_all add: b_def)
  have bpos: "0 < b" using b(2) m by (cases "0 < b") auto
  have e: "binade x = - b" using False by (simp add: binade_def y_def m_def b_def)
  have "y \<le> of_int (m + 1)" unfolding m_def by simp
  also have "\<dots> \<le> of_int (2 ^ nat b)" using b(2) by (simp only: of_int_le_iff)
  also have "\<dots> = (2::real) powi b" using bpos by (simp add: power_int_def)
  finally have "y \<le> 2 powi b" .
  then have lo: "2 powi (- b) \<le> \<bar>x\<bar>"
    using a by (simp add: y_def power_int_minus field_simps)
  have "(2::real) powi (b - 1) = of_int (2 ^ nat (b - 1))"
    using bpos by (simp add: power_int_def)
  also have "\<dots> \<le> of_int m" using b(1) by (simp only: of_int_le_iff)
  also have "\<dots> < y" unfolding m_def by linarith
  finally have "2 powi (b - 1) < y" .
  then have "\<bar>x\<bar> < inverse (2 powi (b - 1))"
    using a by (simp add: y_def field_simps)
  moreover have "(2::real) powi (- b + 1) = inverse (2 powi (b - 1))"
    using power_int_minus[of "2::real" "b - 1"] by simp
  ultimately have hi: "\<bar>x\<bar> < 2 powi (- b + 1)" by simp
  show ?thesis using lo hi by (simp add: e)
qed

lemma binade_eqI:
  assumes "2 powi e \<le> \<bar>x\<bar>" "\<bar>x\<bar> < 2 powi (e + 1)"
  shows "binade x = e"
proof -
  have p: "0 < (2::real) powi e" by simp
  have "0 < \<bar>x\<bar>" using p assms(1) by linarith
  then have nz: "x \<noteq> 0" by auto
  note b = binade_bounds[OF nz]
  have "\<not> binade x + 1 \<le> e"
  proof
    assume "binade x + 1 \<le> e"
    then have "(2::real) powi (binade x + 1) \<le> 2 powi e"
      by (intro power_int_increasing) auto
    then show False using b assms by linarith
  qed
  moreover have "\<not> e + 1 \<le> binade x"
  proof
    assume "e + 1 \<le> binade x"
    then have "(2::real) powi (e + 1) \<le> 2 powi binade x"
      by (intro power_int_increasing) auto
    then show False using b assms by linarith
  qed
  ultimately show ?thesis by linarith
qed

lemma round_double_eqI:
  assumes "2 powi e \<le> \<bar>x\<bar>" "\<bar>x\<bar> < 2 powi (e + 1)"
    and "round_half_even (x / 2 powi (e - 52)) = m"
  shows "round_double x = of_int m * 2 powi (e - 52)"
proof -
  have p: "0 < (2::real) powi e" by simp
  have "0 < \<bar>x\<bar>" using p assms(1) by linarith
  then have nz: "x \<noteq> 0" by auto
  show ?thesis
    using nz assms(3) binade_eqI[OF assms(1,2)]
    by (simp add: round_double_def Let_def)
qed

lemma round_half_even_of_int: "round_half_even (of_int z) = z"
  by (simp add: round_half_even_def)

text \<open>A number with at most 53 significant bits is a double: rounding leaves it alone.\<close>

lemma round_double_exact:
  assumes "\<bar>m\<bar> < 2 ^ 53"
  shows "round_double (of_int m * 2 powi k) = of_int m * 2 powi k"
proof (cases "m = 0")
  case True
  then show ?thesis by (simp add: round_double_def)
next
  case False
  define x :: real where "x = of_int m * 2 powi k"
  have nz: "x \<noteq> 0" using False by (simp add: x_def)
  define e where "e = binade x"
  have absx: "\<bar>x\<bar> = of_int \<bar>m\<bar> * 2 powi k" by (simp add: x_def abs_mult)
  have "of_int \<bar>m\<bar> < (2::real) ^ 53"
    using assms by (metis of_int_less_iff of_int_numeral of_int_power)
  then have "\<bar>x\<bar> < 2 ^ 53 * 2 powi k"
    unfolding absx by (intro mult_strict_right_mono) auto
  also have "\<dots> = (2::real) powi (53 + k)" by (simp add: power_int_add)
  finally have up: "\<bar>x\<bar> < 2 powi (53 + k)" .
  have "\<not> 53 + k \<le> e"
  proof
    assume "53 + k \<le> e"
    then have "(2::real) powi (53 + k) \<le> 2 powi e"
      by (intro power_int_increasing) auto
    then show False using binade_bounds[OF nz] up by (simp add: e_def)
  qed
  then have d: "0 \<le> k - e + 52" by simp
  have "x / 2 powi (e - 52) = of_int m * 2 powi (k - e + 52)"
    by (simp add: x_def power_int_diff power_int_add field_simps)
  also have "\<dots> = of_int (m * 2 ^ nat (k - e + 52))"
    using d by (simp add: power_int_def)
  finally have "round_half_even (x / 2 powi (e - 52)) = m * 2 ^ nat (k - e + 52)"
    by (simp only: round_half_even_of_int)
  then have "round_double x = of_int (m * 2 ^ nat (k - e + 52)) * 2 powi (e - 52)"
    using nz by (simp add: round_double_def Let_def e_def)
  also have "\<dots> = of_int m * (2 powi (k - e + 52) * 2 powi (e - 52))"
    using d by (simp add: power_int_def)
  also have "2 powi (k - e + 52) * 2 powi (e - 52) = (2::real) powi k"
    by (simp flip: power_int_add)
  finally show ?thesis by (simp add: x_def)
qed

lemma round_double_of_int:
  "\<bar>m\<bar> < 2 ^ 53 \<Longrightarrow> round_double (of_int m) = of_int m"
  using round_double_exact[of m 0] by simp

lemma float_of_int_small:
  "\<bar>m\<bar> < 2 ^ 53 \<Longrightarrow> float_of_int m = Inr (of_int m)"
proof -
  assume m: "\<bar>m\<bar> < 2 ^ 53"
  have "\<bar>m\<bar> < 2 ^ 1024" using m by (rule less_trans) simp
  then have "\<bar>real_of_int m\<bar> < 2 ^ 1024"
    by (metis of_int_abs of_int_less_iff of_int_numeral of_int_power)
  then show ?thesis using m by (simp add: float_of_int_def round_double_of_int Let_def)
qed

lemma double_0_1: "round_double (1 / 10) = 3602879701896397 / 2 ^ 55"
proof -
  have "round_double (1 / 10) = of_int 7205759403792794 * 2 powi (- 4 - 52)"
    by (rule round_double_eqI) (simp_all add: round_half_even_def Let_def power_int_minus)
  then show ?thesis by (simp add: power_int_minus field_simps)
qed

lemma double_0_3: "round_double (3 / 10) = 5404319552844595 / 2 ^ 54"
proof -
  have "round_double (3 / 10) = of_int 5404319552844595 * 2 powi (- 2 - 52)"
    by (rule round_double_eqI) (simp_all add: round_half_even_def Let_def power_int_minus)
  then show ?thesis by (simp add: power_int_minus field_simps)
qed

lemma double_0_7: "round_double (7 / 10) = 6305039478318694 / 2 ^ 53"
proof -
  have "round_double (7 / 10) = of_int 6305039478318694 * 2 powi (- 1 - 52)"
    by (rule round_double_eqI) (simp_all add: round_half_even_def Let_def power_int_minus)
  then show ?thesis by (simp add: power_int_minus field_simps)
qed

text \<open>\<open>1 - alpha\<close> is a tie between two doubles and rounds to the double \<open>0.7\<close>.\<close>

lemma one_minus_alpha: "float_sub 1 (round_double (3 / 10)) = round_double (7 / 10)"
proof -
  have "round_double (1 - 5404319552844595 / 2 ^ 54)
          = of_int 6305039478318694 * 2 powi (- 1 - 52)"
    by (rule round_double_eqI) (simp_all add: round_half_even_def Let_def power_int_minus)
  then show ?thesis
    by (simp add: float_sub_def double_0_3 double_0_7 power_int_minus field_simps)
qed

lemma ema_alpha:
  "ema (round_double (3 / 10)) sample current_avg =
     float_add (float_mul (round_double (3 / 10)) sample)
               (float_mul (round_double (7 / 10)) current_avg)"
  by (simp only: ema_def one_minus_alpha)

lemma double_9_ms: "round_double (9 / 1000) = 5188146770730811 / 2 ^ 59"
proof -
  have "round_double (9 / 1000) = of_int 5188146770730811 * 2 powi (- 7 - 52)"
    by (rule round_double_eqI) (simp_all add: round_half_even_def Let_def power_int_minus)
  then show ?thesis by (simp add: power_int_minus field_simps)
qed

lemma double_rate_of_9_in_9_ms:
  "round_double (9 / (5188146770730811 / 2 ^ 59)) = 1000 + 1 / 2 ^ 43"
proof -
  have "round_double (9 / (5188146770730811 / 2 ^ 59))
          = of_int 8796093022208001 * 2 powi (9 - 52)"
    by (rule round_double_eqI) (simp_all add: round_half_even_def Let_def power_int_minus)
  then show ?thesis by (simp add: power_int_minus field_simps)
qed

lemma tokens_per_second_9_in_9_ms: "tokens_per_second 9 9000000 = Inr (1000 + 1 / 2 ^ 43)"
proof -
  have a: "float_of_int 9000000 = Inr 9000000"
    using float_of_int_small[of 9000000] by simp
  have b: "float_of_int 9 = Inr 9"
    using float_of_int_small[of 9] by simp
  have q: "(9000000::real) / 1000000000 = 9 / 1000" by simp
  have s: "float_div 9000000 1000000000 = Inr (5188146770730811 / 2 ^ 59)"
    unfolding float_div_def q double_9_ms by simp
  have t: "float_div 9 (5188146770730811 / 2 ^ 59) = Inr (1000 + 1 / 2 ^ 43)"
    unfolding float_div_def double_rate_of_9_in_9_ms by simp
  show ?thesis
    by (simp only: tokens_per_second_def a b s t sum.case)
qed

lemma tokens_per_second_per_second:
  assumes "\<bar>n\<bar> < 2 ^ 53"
  shows "tokens_per_second n 1000000000 = Inr (of_int n)"
proof -
  have a: "float_of_int 1000000000 = Inr 1000000000"
    using float_of_int_small[of 1000000000] by simp
  have one: "round_double 1 = 1" using round_double_of_int[of 1] by simp
  show ?thesis
    unfolding tokens_per_second_def a float_of_int_small[OF assms] float_div_def
    using round_double_of_int[OF assms] by (simp add: one)
qed

lemma ema_of_20_and_10: "ema (round_double (3 / 10)) 20 10 = 13"
proof -
  have a: "round_double (5404319552844595 / 2 ^ 54 * 20) = 6"
  proof -
    have "round_double (5404319552844595 / 2 ^ 54 * 20)
            = of_int 6755399441055744 * 2 powi (2 - 52)"
      by (rule round_double_eqI) (simp_all add: round_half_even_def Let_def power_int_minus)
    then show ?thesis by (simp add: power_int_minus field_simps)
  qed
  have b: "round_double (6305039478318694 / 2 ^ 53 * 10) = 7"
  proof -
    have "round_double (6305039478318694 / 2 ^ 53 * 10)
            = of_int 7881299347898368 * 2 powi (2 - 52)"
      by (rule round_double_eqI) (simp_all add: round_half_even_def Let_def power_int_minus)
    then show ?thesis by (simp add: power_int_minus field_simps)
  qed
  have c: "round_double 13 = 13" using round_double_of_int[of 13] by simp
  have "ema (round_double (3 / 10)) 20 10 =
          round_double (round_double (round_double (3 / 10) * 20)
                        + round_double (round_double (7 / 10) * 10))"
    by (simp only: ema_alpha float_add_def float_mul_def)
  also have "\<dots> = round_double (6 + 7)"
    by (simp only: double_0_3 double_0_7 a b)
  also have "\<dots> = 13" using c by simp
  finally show ?thesis .
qed

subsection \<open>Tokens per second\<close>

text \<open>
  C9. As stated, in exact arithmetic, the claim does not hold of \<open>update_token_stats\<close>.
  Nine tokens in 9000000 ns are exactly 1000 tokens per second, inside the interval
  \<open>[0.1, 1000]\<close>; the double quotient \<open>9000000 / 1e9\<close> lies just below 0.009, the
  computed rate is \<open>1000 + 2^-43\<close> (Python prints 1000.0000000000001), and the sample is
  discarded: nothing is stored.
\<close>

theorem update_token_stats_discards_rate_on_the_bound:
  "real_of_int 9 / (real_of_int 9000000 / 1000000000) = 1000
   \<and> tokens_per_second 9 9000000 = Inr (1000 + 1 / 2 ^ 43)
   \<and> update_token_stats None False Map.empty (\<lambda>u. u) ''http://a'' 9 9000000
        = Inr (None, Map.empty)"
proof -
  have "\<not> (1000 + 1 / 2 ^ 43 :: real) < round_double (1 / 10)"
    by (simp add: double_0_1)
  then have "update_token_stats None False Map.empty (\<lambda>u. u) ''http://a'' 9 9000000
        = Inr (None, Map.empty)"
    by (simp add: update_token_stats_def tokens_per_second_9_in_9_ms)
  then show ?thesis by (simp add: tokens_per_second_9_in_9_ms)
qed

text \<open>
  C9, amended. The sample is the double-precision value of
  \<open>eval_count / (eval_duration_nanos / 1e9)\<close>, each division rounded to the nearest
  double (\<open>tokens_per_second\<close>). A sample whose duration is not positive, or whose
  computed value is below the double \<open>0.1\<close> or above 1000, leaves the cache and
  \<open>PERFORMANCE_STATS\<close> as they were. An accepted sample makes the stored average (as
  \<open>get_server_stats\<close> reads it, 0.0 when none is stored) equal to the sample when the
  previous average is 0, so the first accepted sample seeds it, and otherwise to
  \<open>0.3 * sample + 0.7 * previous\<close> evaluated in double precision: both products and the
  sum are rounded, and \<open>1 - 0.3\<close> is the double \<open>0.7\<close>. An \<open>int\<close> too large for a
  double raises \<open>OverflowError\<close>.
\<close>

theorem update_token_stats_ema:
  "let base = origin url;
       before = avg_tokens_per_second redis raises stats base;
       outcome = update_token_stats redis raises stats origin url eval_count dur
   in (dur \<le> 0 \<longrightarrow> outcome = Inr (redis, stats))
    \<and> (0 < dur \<longrightarrow>
         (case tokens_per_second eval_count dur of
            Inl e \<Rightarrow> outcome = Inl e
          | Inr sample \<Rightarrow>
              (sample < round_double (1 / 10) \<or> 1000 < sample \<longrightarrow>
                 outcome = Inr (redis, stats))
              \<and> (round_double (1 / 10) \<le> sample \<and> sample \<le> 1000 \<longrightarrow>
                   (\<exists>redis' stats'. outcome = Inr (redis', stats')
                      \<and> avg_tokens_per_second redis' raises stats' base =
                          (if before = 0 then sample
                           else float_add (float_mul (round_double (3 / 10)) sample)
                                          (float_mul (round_double (7 / 10)) before))))))"
proof -
  define base where "base = origin url"
  define before where "before = avg_tokens_per_second redis raises stats base"
  define outcome where
    "outcome = update_token_stats redis raises stats origin url eval_count dur"
  have early: "outcome = Inr (redis, stats)" if "dur \<le> 0"
    using that by (simp add: outcome_def update_token_stats_def)
  have raised: "outcome = Inl e" if "0 < dur" "tokens_per_second eval_count dur = Inl e" for e
    using that by (simp add: outcome_def update_token_stats_def)
  have discard: "outcome = Inr (redis, stats)"
    if "0 < dur" "tokens_per_second eval_count dur = Inr sample"
      "sample < round_double (1 / 10) \<or> 1000 < sample" for sample
    using that by (auto simp: outcome_def update_token_stats_def)
  have accept: "\<exists>redis' stats'. outcome = Inr (redis', stats')
      \<and> avg_tokens_per_second redis' raises stats' base =
          (if before = 0 then sample
           else float_add (float_mul (round_double (3 / 10)) sample)
                          (float_mul (round_double (7 / 10)) before))"
    if "0 < dur" "tokens_per_second eval_count dur = Inr sample"
      "round_double (1 / 10) \<le> sample" "sample \<le> 1000" for sample
  proof -
    have upd: "outcome =
       (case redis of
          None \<Rightarrow>
            Inr (redis, update_token_stats_memory stats base sample (round_double (3 / 10)))
        | Some r \<Rightarrow>
            if raises
            then Inr (redis,
                      update_token_stats_memory stats base sample (round_double (3 / 10)))
            else (let key = ''perf_avg_tokens_per_second:'' @ base;
                      current_avg = (case floats r key of None \<Rightarrow> 0 | Some a \<Rightarrow> a);
                      new_avg = (if current_avg = 0 then sample
                                 else ema (round_double (3 / 10)) sample current_avg)
                  in Inr (Some (r\<lparr>floats := (floats r)(key \<mapsto> new_avg)\<rparr>), stats)))"
      using that
      unfolding outcome_def update_token_stats_def base_def[symmetric] Let_def
      by (auto split: option.splits)
    show ?thesis
      unfolding upd before_def
      by (auto simp: update_token_stats_memory_def avg_tokens_per_second_def ema_alpha Let_def
          split: option.splits)
  qed
  have "(dur \<le> 0 \<longrightarrow> outcome = Inr (redis, stats))
    \<and> (0 < dur \<longrightarrow>
         (case tokens_per_second eval_count dur of
            Inl e \<Rightarrow> outcome = Inl e
          | Inr sample \<Rightarrow>
              (sample < round_double (1 / 10) \<or> 1000 < sample \<longrightarrow>
                 outcome = Inr (redis, stats))
              \<and> (round_double (1 / 10) \<le> sample \<and> sample \<le> 1000 \<longrightarrow>
                   (\<exists>redis' stats'. outcome = Inr (redis', stats')
                      \<and> avg_tokens_per_second redis' raises stats' base =
                          (if before = 0 then sample
                           else float_add (float_mul (round_double (3 / 10)) sample)
                                          (float_mul (round_double (7 / 10)) before))))))"
    using early raised discard accept
    by (cases "tokens_per_second eval_count dur") auto
  then show ?thesis
    unfolding Let_def base_def[symmetric] before_def[symmetric] outcome_def[symmetric] .
qed

theorem update_token_stats_ema_witness:
  "update_token_stats None False Map.empty (\<lambda>u. u) ''http://a'' 10 0 = Inr (None, Map.empty)
   \<and> tokens_per_second 10 1000000000 = Inr 10
   \<and> round_double (1 / 10) \<le> 10
   \<and> (\<exists>redis' stats'.
         update_token_stats None False Map.empty (\<lambda>u. u) ''http://a'' 10 1000000000
           = Inr (redis', stats')
         \<and> avg_tokens_per_second redis' False stats' ''http://a'' = 10)
   \<and> tokens_per_second 20 1000000000 = Inr 20
   \<and> (\<exists>redis' stats'.
         update_token_stats None False
           [''http://a'' \<mapsto> \<lparr> perf_avg_response_time = None, perf_sample_count = None,
                               perf_avg_tokens_per_second = Some 10 \<rparr>]
           (\<lambda>u. u) ''http://a'' 20 1000000000 = Inr (redis', stats')
         \<and> avg_tokens_per_second redis' False stats' ''http://a'' = 13)"
proof -
  have t10: "tokens_per_second 10 1000000000 = Inr 10"
    using tokens_per_second_per_second[of 10] by simp
  have t20: "tokens_per_second 20 1000000000 = Inr 20"
    using tokens_per_second_per_second[of 20] by simp
  have lo: "round_double (1 / 10) \<le> 10" "round_double (1 / 10) \<le> 20"
    by (simp_all add: double_0_1)
  have mix: "float_add (float_mul (round_double (3 / 10)) 20)
                       (float_mul (round_double (7 / 10)) 10) = 13"
    using ema_of_20_and_10 by (simp only: ema_def one_minus_alpha)
  have a: "update_token_stats None False Map.empty (\<lambda>u. u) ''http://a'' 10 0
             = Inr (None, Map.empty)"
    using update_token_stats_ema[where eval_count = 10 and dur = 0 and redis = None
        and raises = False and stats = Map.empty and origin = "\<lambda>u. u" and url = "''http://a''"]
    by (simp add: Let_def)
  have b: "\<exists>redis' stats'.
         update_token_stats None False Map.empty (\<lambda>u. u) ''http://a'' 10 1000000000
           = Inr (redis', stats')
         \<and> avg_tokens_per_second redis' False stats' ''http://a'' = 10"
    using update_token_stats_ema[where eval_count = 10 and dur = 1000000000 and redis = None
        and raises = False and stats = Map.empty and origin = "\<lambda>u. u" and url = "''http://a''"]
      lo(1)
    by (simp add: Let_def t10 avg_tokens_per_second_def)
  have c: "\<exists>redis' stats'.
         update_token_stats None False
           [''http://a'' \<mapsto> \<lparr> perf_avg_response_time = None, perf_sample_count = None,
                               perf_avg_tokens_per_second = Some 10 \<rparr>]
           (\<lambda>u. u) ''http://a'' 20 1000000000 = Inr (redis', stats')
         \<and> avg_tokens_per_second redis' False stats' ''http://a'' = 13"
    using update_token_stats_ema[where eval_count = 20 and dur = 1000000000 and redis = None
        and raises = False
        and stats = "[''http://a'' \<mapsto> \<lparr> perf_avg_response_time = None,
                        perf_sample_count = None, perf_avg_tokens_per_second = Some 10 \<rparr>]"
        and origin = "\<lambda>u. u" and url = "''http://a''"]
      lo(2)
    by (simp add: Let_def t20 mix avg_tokens_per_second_def)
  show ?thesis using a b c t10 t20 lo(1) by blast
qed

subsection \<open>Backend selection\<close>

lemma pick_best_keeps_a_choice:
  "snd (pick_best wj wr (Some s, Some b) ms) \<noteq> None"
  by (induction ms arbitrary: s b) (auto simp: Let_def)

lemma pick_best_finds_a_backend:
  "ms \<noteq> [] \<Longrightarrow> snd (pick_best wj wr (None, None) ms) \<noteq> None"
  by (cases ms) (auto simp: Let_def pick_best_keeps_a_choice)

lemma pick_best_from:
  "pick_best wj wr (Some s0, Some b0) ms = (Some s, Some b) \<Longrightarrow>
     s \<le> s0 \<and> (\<forall>m\<in>set ms. s \<le> score_of wj wr m)
     \<and> ((s = s0 \<and> b = b0) \<or> (\<exists>m\<in>set ms. idx m = b \<and> score_of wj wr m = s))"
proof (induction ms arbitrary: s0 b0)
  case Nil
  then show ?case by simp
next
  case (Cons m ms)
  show ?case
  proof (cases "score_of wj wr m < s0")
    case True
    then have "pick_best wj wr (Some (score_of wj wr m), Some (idx m)) ms = (Some s, Some b)"
      using Cons.prems by (simp add: Let_def)
    from Cons.IH[OF this] True show ?thesis by auto
  next
    case False
    then have "pick_best wj wr (Some s0, Some b0) ms = (Some s, Some b)"
      using Cons.prems by (simp add: Let_def)
    from Cons.IH[OF this] False show ?thesis by auto
  qed
qed

lemma pick_best_minimum:
  assumes "pick_best wj wr (None, None) ms = (Some s, Some b)"
  shows "(\<forall>m\<in>set ms. s \<le> score_of wj wr m)
         \<and> (\<exists>m\<in>set ms. idx m = b \<and> score_of wj wr m = s)"
proof (cases ms)
  case Nil
  then show ?thesis using assms by simp
next
  case (Cons m rest)
  then have "pick_best wj wr (Some (score_of wj wr m), Some (idx m)) rest = (Some s, Some b)"
    using assms by (simp add: Let_def)
  from pick_best_from[OF this] Cons show ?thesis by auto
qed

lemma collect_metrics_length:
  "collect_metrics urls redis raises mem origin cs = Inr ms \<Longrightarrow> length ms = length cs"
  by (induction cs arbitrary: ms) (auto simp: Let_def split: if_splits sum.splits)

lemma healthy_or_all_finds_a_backend:
  assumes "collect_metrics urls redis raises mem origin cs = Inr ms" "cs \<noteq> []"
  shows "\<exists>b. snd (pick_best wj wr (None, None)
             (if filter (\<lambda>m. health_status m \<noteq> Some ''unhealthy'') ms = [] then ms
              else filter (\<lambda>m. health_status m \<noteq> Some ''unhealthy'') ms)) = Some b"
proof -
  have "ms \<noteq> []" using collect_metrics_length[OF assms(1)] assms(2) by auto
  then have "snd (pick_best wj wr (None, None)
             (if filter (\<lambda>m. health_status m \<noteq> Some ''unhealthy'') ms = [] then ms
              else filter (\<lambda>m. health_status m \<noteq> Some ''unhealthy'') ms)) \<noteq> None"
    by (intro pick_best_finds_a_backend) auto
  then show ?thesis by auto
qed

lemma get_ollama_url_never_draws:
  "get_ollama_url models urls redis raises mem wj wr origin rnd mdl url_idx
     = get_ollama_url models urls redis raises mem wj wr origin rnd' mdl url_idx"
proof (cases url_idx)
  case (Some i)
  then show ?thesis by (simp add: get_ollama_url_def)
next
  case None
  show ?thesis
  proof (cases "models mdl")
    case no_model: None
    then show ?thesis using None by (simp add: get_ollama_url_def)
  next
    case (Some cs)
    show ?thesis
    proof (cases "cs = []")
      case True
      then show ?thesis using None Some by (simp add: get_ollama_url_def)
    next
      case False
      show ?thesis
      proof (cases "collect_metrics urls redis raises mem origin cs")
        case (Inl e)
        then show ?thesis using None Some False by (simp add: get_ollama_url_def)
      next
        case (Inr ms)
        from healthy_or_all_finds_a_backend[OF Inr False, of wj wr]
        obtain b where "snd (pick_best wj wr (None, None)
             (if filter (\<lambda>m. health_status m \<noteq> Some ''unhealthy'') ms = [] then ms
              else filter (\<lambda>m. health_status m \<noteq> Some ''unhealthy'') ms)) = Some b"
          by blast
        then show ?thesis
          using None Some False Inr by (simp add: get_ollama_url_def Let_def)
      qed
    qed
  qed
qed

text \<open>
  C5. The claim has three parts. Two hold: unhealthy candidates are dropped unless that
  leaves none (\<open>get_ollama_url\<close> then scores them all), and the lowest score wins, the
  earliest candidate on a tie (\<open>pick_best_minimum\<close>; the comparison is strict). The third
  does not: a candidate without metrics reads as 0 active jobs and 0.0 ms, so its score
  is 0, below the initial infinity; the first candidate is taken and
  \<open>random.choice\<close> is never reached (\<open>get_ollama_url_never_draws\<close>). With two
  backends and no metrics at all the result is backend 0 whatever the draw would be.
\<close>

theorem get_ollama_url_without_metrics_takes_first:
  "get_ollama_url example_models example_urls None False empty_memory 1 1 (\<lambda>u. u) rnd
      ''llama3'' None = Inr (''http://a:11434'', 0)"
  by (simp add: get_ollama_url_def example_models_def example_urls_def empty_memory_def
      read_active_jobs_def read_avg_response_time_def get_health_status_def score_of_def
      Let_def)

subsection \<open>Daily buckets\<close>

lemma civil_from_days_19675: "civil_from_days 19675 = (2023, 11, 14)"
  unfolding civil_from_days_def Let_def by simp

lemma civil_from_days_19674: "civil_from_days 19674 = (2023, 11, 13)"
  unfolding civil_from_days_def Let_def by simp

lemma sqlite_day_bucket_example: "sqlite_day_bucket 1700000000 = ''2023-11-14''"
  unfolding sqlite_day_bucket_def
  by (simp add: civil_from_days_19675 isoformat_def digit_def)

lemma other_day_label_example:
  "other_day_label (- 18000) (other_day_bucket 1700000000) = ''2023-11-13''"
  unfolding other_day_label_def other_day_bucket_def sql_int_div_def date_fromtimestamp_def
  by (simp add: civil_from_days_19674 isoformat_def digit_def)

lemma day_labels_agree_east_of_utc:
  assumes "0 \<le> created" "0 \<le> utcoffset" "utcoffset < 86400"
  shows "other_day_label utcoffset (other_day_bucket created) = sqlite_day_bucket created"
proof -
  have "(created div 86400 * 86400 + utcoffset) div 86400 = created div 86400"
    using assms by simp
  then show ?thesis
    using assms
    by (simp add: other_day_label_def other_day_bucket_def sql_int_div_def
        date_fromtimestamp_def sqlite_day_bucket_def)
qed

text \<open>
  C8. The claim is that both branches give the same ISO dates. The SQLite branch labels a
  row with the UTC date of \<open>created_at\<close>; the other branch turns the day number back into
  a date with \<open>date.fromtimestamp\<close>, which is the date in the server's local time zone
  at UTC midnight of that day. The two agree for a zone at or east of UTC
  (\<open>day_labels_agree_east_of_utc\<close>); on a server five hours west of UTC a job created at
  1700000000 (2023-11-14 22:13:20 UTC) is counted under 2023-11-14 by the SQLite branch
  and under 2023-11-13 by the other one.
\<close>

theorem daily_history_depends_on_engine:
  "daily_history_sqlite 1700000100
      [make_mock_job ''j1'' ''u1'' JOB_STATUS_COMPLETED 1 3 5 1700000000] []
     = [\<lparr>date = ''2023-11-14'', total = 1, completed = 1, failed = 0\<rparr>]
   \<and> daily_history_other (- 18000) 1700000100
      [make_mock_job ''j1'' ''u1'' JOB_STATUS_COMPLETED 1 3 5 1700000000] []
     = [\<lparr>date = ''2023-11-13'', total = 1, completed = 1, failed = 0\<rparr>]"
proof -
  have a: "daily_history_sqlite 1700000100
      [make_mock_job ''j1'' ''u1'' JOB_STATUS_COMPLETED 1 3 5 1700000000] []
     = [\<lparr>date = ''2023-11-14'', total = 1, completed = 1, failed = 0\<rparr>]"
    unfolding daily_history_sqlite_def daily_rows_def combined_def Let_def
    by (simp add: make_mock_job_def sqlite_day_bucket_example status_defs)
  have b: "daily_history_other (- 18000) 1700000100
      [make_mock_job ''j1'' ''u1'' JOB_STATUS_COMPLETED 1 3 5 1700000000] []
     = [\<lparr>date = ''2023-11-13'', total = 1, completed = 1, failed = 0\<rparr>]"
    unfolding daily_history_other_def daily_rows_def combined_def Let_def
    using other_day_label_example by (simp add: make_mock_job_def status_defs)
  show ?thesis using a b by simp
qed

end
